theory Spec2Isabelle
  imports Main "HOL-Library.Char_ord" "HOL-Library.List_Lexorder" "HOL-Library.Product_Lexorder"
begin

section \<open>The extension manager of the render process (ExtensionManager.ts)\<close>

text \<open>
  A shallow embedding of \<^verbatim>\<open>ExtensionManagerImpl\<close>. Objects that the TypeScript code
  holds by reference (DOM nodes, terminals, viewers) are references into a DOM, and
  \<^verbatim>\<open>===\<close> on them is equality of references; \<^verbatim>\<open>null\<close> is \<open>None\<close>. Mutation of
  \<^verbatim>\<open>this\<close> is explicit state passing; a thrown exception is the \<open>Inl\<close> of a sum.
\<close>

subsection \<open>JavaScript values and helpers\<close>

datatype jsvalue =
    JUndefined
  | JNull
  | JBool bool
  | JNumber int
  | JString string
  | JArray "jsvalue list"
  | JObject "(string \<times> jsvalue) list"

text \<open>\<^verbatim>\<open>Array.prototype.indexOf\<close> and \<^verbatim>\<open>String.prototype.indexOf\<close> with a one character
  needle: the first position of the element, or -1.\<close>

fun indexOf :: "'a list \<Rightarrow> 'a \<Rightarrow> int" where
  "indexOf [] x = - 1"
| "indexOf (y # ys) x =
     (if y = x then 0 else (let i = indexOf ys x in if i = - 1 then - 1 else i + 1))"

text \<open>\<^verbatim>\<open>String.prototype.slice\<close> with non-negative bounds.\<close>

definition slice :: "string \<Rightarrow> nat \<Rightarrow> nat \<Rightarrow> string" where
  "slice s b e = take (e - b) (drop b s)"

definition sliceFrom :: "string \<Rightarrow> nat \<Rightarrow> string" where
  "sliceFrom s b = drop b s"

text \<open>\<^verbatim>\<open>String.prototype.split\<close> with a one character separator: the empty string
  splits into one empty part.\<close>

fun split :: "string \<Rightarrow> char \<Rightarrow> string list" where
  "split [] c = [] # []"
| "split (x # xs) c =
     (if x = c then [] # split xs c
      else (case split xs c of [] \<Rightarrow> [x] # [] | p # ps \<Rightarrow> (x # p) # ps))"

text \<open>\<^verbatim>\<open>a || b\<close> on object references: only \<^verbatim>\<open>null\<close> is falsy.\<close>

definition jsOr :: "'a option \<Rightarrow> 'a option \<Rightarrow> 'a option" where
  "jsOr a b = (case a of None \<Rightarrow> b | Some x \<Rightarrow> Some x)"

text \<open>A template literal's \<^verbatim>\<open>'${x}'\<close>.\<close>

definition quoted :: "string \<Rightarrow> string" where
  "quoted s = CHR 0x27 # s @ [CHR 0x27]"

datatype LogEntry = Info "string list" | Warn "string list"

fun isWarn :: "LogEntry \<Rightarrow> bool" where
  "isWarn (Warn args) = True"
| "isWarn (Info args) = False"

subsection \<open>The DOM and the focus state\<close>

type_synonym ref = nat

text \<open>Modelled from the spec: the interaction mode of a terminal (the enum \<^verbatim>\<open>Mode\<close> of
  ViewerElementTypes is not among the sources): cursor mode, or the normal one.\<close>

datatype Mode = DEFAULT | CURSOR

text \<open>What the code asks of a node of the composed path: its classes
  (\<^verbatim>\<open>instanceof\<close>), its parent element, and for a terminal \<^verbatim>\<open>getMode()\<close>, for a text
  editor \<^verbatim>\<open>getEditable()\<close>.\<close>

record Element =
  instanceofEtTerminal :: bool
  instanceofTerminalViewer :: bool
  instanceofTextViewer :: bool
  instanceofViewerElement :: bool
  instanceofEmbeddedViewer :: bool
  instanceofTabWidget :: bool
  instanceofHTMLInputElement :: bool
  parentElement :: "ref option"
  getMode :: Mode
  getEditable :: bool

type_synonym dom = "ref \<Rightarrow> Element"

record Event =
  composedPath :: "ref list"

record CommonExtensionWindowState =
  activeTabContent :: "ref option"
  activeTerminal :: "ref option"
  focusTerminal :: "ref option"
  activeTextEditor :: "ref option"
  focusTextEditor :: "ref option"
  activeTabsWidget :: "ref option"
  activeViewerElement :: "ref option"
  focusViewerElement :: "ref option"
  isInputFieldFocus :: bool

definition nullState :: CommonExtensionWindowState where
  "nullState =
     \<lparr> activeTabContent = None, activeTerminal = None, focusTerminal = None,
       activeTextEditor = None, focusTextEditor = None, activeTabsWidget = None,
       activeViewerElement = None, focusViewerElement = None, isInputFieldFocus = False \<rparr>"

subsection \<open>Extensions, commands and the manager\<close>

text \<open>A contributed command, with the fields the manager reads. The category is a
  string, so that a category outside the enumeration can be written; the order is a
  number, here a whole one.\<close>

record ExtensionCommandContribution =
  command :: string
  title :: string
  whenClause :: string
  category :: string
  order :: int
  commandPalette :: bool
  contextMenu :: bool
  emptyPaneMenu :: bool
  newTerminalMenu :: bool

text \<open>The object a function customizer returns: the fields it holds override the
  contribution's in \<^verbatim>\<open>{...command, ...customizer()}\<close>.\<close>

record CustomizedCommand =
  c_command :: "string option"
  c_title :: "string option"
  c_whenClause :: "string option"
  c_category :: "string option"
  c_order :: "int option"
  c_commandPalette :: "bool option"
  c_contextMenu :: "bool option"
  c_emptyPaneMenu :: "bool option"
  c_newTerminalMenu :: "bool option"

definition spread :: "ExtensionCommandContribution \<Rightarrow> CustomizedCommand \<Rightarrow> ExtensionCommandContribution" where
  "spread c u =
     \<lparr> command = (case c_command u of None \<Rightarrow> command c | Some v \<Rightarrow> v),
       title = (case c_title u of None \<Rightarrow> title c | Some v \<Rightarrow> v),
       whenClause = (case c_whenClause u of None \<Rightarrow> whenClause c | Some v \<Rightarrow> v),
       category = (case c_category u of None \<Rightarrow> category c | Some v \<Rightarrow> v),
       order = (case c_order u of None \<Rightarrow> order c | Some v \<Rightarrow> v),
       commandPalette = (case c_commandPalette u of None \<Rightarrow> commandPalette c | Some v \<Rightarrow> v),
       contextMenu = (case c_contextMenu u of None \<Rightarrow> contextMenu c | Some v \<Rightarrow> v),
       emptyPaneMenu = (case c_emptyPaneMenu u of None \<Rightarrow> emptyPaneMenu c | Some v \<Rightarrow> v),
       newTerminalMenu = (case c_newTerminalMenu u of None \<Rightarrow> newTerminalMenu c | Some v \<Rightarrow> v) \<rparr>"

text \<open>A command function runs on its arguments and on the window state it finds; it
  returns or throws (\<open>Inl\<close>), and leaves a window state.\<close>

type_synonym commandFunc =
  "jsvalue \<Rightarrow> CommonExtensionWindowState \<Rightarrow> (string + jsvalue) \<times> CommonExtensionWindowState"

text \<open>Modelled from the spec: the per-extension CommandRegistry (CommandsRegistry.ts is
  not among the sources) stores the handlers bound to command names and the function
  customizers; both lookups give \<^verbatim>\<open>null\<close> for a name with nothing registered.\<close>

record CommandsRegistry =
  getCommandFunction :: "string \<Rightarrow> commandFunc option"
  getFunctionCustomizer :: "string \<Rightarrow> CustomizedCommand option"

record ExtensionMetadata =
  name :: string
  path :: string
  main :: "string option"
  contributes_commands :: "ExtensionCommandContribution list"

record InternalExtensionContext =
  extensionMetadata :: ExtensionMetadata
  commands :: CommandsRegistry

text \<open>A loaded module: \<^verbatim>\<open>activate(context)\<close> throws, or returns the public API after
  registering its command functions and customizers in the context's registry.\<close>

record ExtensionModule =
  activate :: "InternalExtensionContext \<Rightarrow> string + (jsvalue \<times> CommandsRegistry)"

record ActiveExtension =
  metadata :: ExtensionMetadata
  contextImpl :: InternalExtensionContext
  publicApi :: jsvalue
  module :: "ExtensionModule option"

text \<open>The private fields \<^verbatim>\<open>_log\<close>, \<^verbatim>\<open>_extensionMetadata\<close>, \<^verbatim>\<open>_activeExtensions\<close> and
  \<^verbatim>\<open>_commonExtensionWindowState\<close>; the log is the list of the entries written.\<close>

record ExtensionManagerImpl =
  p_log :: "LogEntry list"
  p_extensionMetadata :: "ExtensionMetadata list"
  p_activeExtensions :: "ActiveExtension list"
  p_commonExtensionWindowState :: CommonExtensionWindowState

text \<open>The variables of a when-clause; \<open>v_true\<close> and \<open>v_false\<close> are the keys \<^verbatim>\<open>true\<close> and
  \<^verbatim>\<open>false\<close>.\<close>

record WhenVariables =
  v_true :: bool
  v_false :: bool
  terminalFocus :: bool
  isCursorMode :: bool
  isNormalMode :: bool
  textEditorFocus :: bool
  isTextEditing :: bool
  viewerFocus :: bool

text \<open>The collaborators outside the class: the metadata source, the platform
  predicates, \<^verbatim>\<open>path.join\<close>, \<^verbatim>\<open>require\<close>, \<^verbatim>\<open>decodeURIComponent\<close>, \<^verbatim>\<open>JSON.parse\<close> and the
  boolean expression evaluator. Those that can throw return a sum.\<close>

record Host =
  requestExtensionMetadataSync :: "ExtensionMetadata list"
  isMainProcessExtension :: "ExtensionMetadata \<Rightarrow> bool"
  isSupportedOnThisPlatform :: "ExtensionMetadata \<Rightarrow> bool"
  pathJoin :: "string \<Rightarrow> string \<Rightarrow> string"
  require :: "string \<Rightarrow> string + ExtensionModule"
  decodeURIComponent :: "string \<Rightarrow> string + string"
  jsonParse :: "string \<Rightarrow> string + jsvalue"
  beeEvaluate :: "WhenVariables \<Rightarrow> string \<Rightarrow> bool"

definition logInfo :: "string list \<Rightarrow> ExtensionManagerImpl \<Rightarrow> ExtensionManagerImpl" where
  "logInfo args m = m\<lparr>p_log := p_log m @ [Info args]\<rparr>"

definition logWarn :: "string list \<Rightarrow> ExtensionManagerImpl \<Rightarrow> ExtensionManagerImpl" where
  "logWarn args m = m\<lparr>p_log := p_log m @ [Warn args]\<rparr>"

subsection \<open>Focus state from an event, and its merge\<close>

text \<open>One iteration of the loop over the composed path (lines 464 to 485).\<close>

definition scanTarget :: "dom \<Rightarrow> CommonExtensionWindowState \<Rightarrow> ref \<Rightarrow> CommonExtensionWindowState" where
  "scanTarget d newState target =
     (let s1 = (if instanceofEtTerminal (d target)
                then newState\<lparr>activeTerminal := Some target\<rparr> else newState);
          s2 = (if instanceofTerminalViewer (d target) \<or> instanceofTextViewer (d target)
                then s1\<lparr>activeTextEditor := Some target\<rparr> else s1);
          s3 = (if instanceofViewerElement (d target)
                then (if (case activeViewerElement s2 of
                            None \<Rightarrow> True
                          | Some v \<Rightarrow> instanceofEmbeddedViewer (d v))
                      then s2\<lparr>activeViewerElement := Some target\<rparr> else s2)
                else s2);
          s4 = (if instanceofTabWidget (d target)
                then s3\<lparr>activeTabsWidget := Some target\<rparr> else s3);
          s5 = (if (case parentElement (d target) of
                      None \<Rightarrow> False
                    | Some p \<Rightarrow>
                        (case parentElement (d p) of
                           None \<Rightarrow> False
                         | Some g \<Rightarrow> instanceofTabWidget (d g)))
                then s4\<lparr>activeTabContent := Some target\<rparr> else s4)
      in (if instanceofHTMLInputElement (d target)
          then s5\<lparr>isInputFieldFocus := True\<rparr> else s5))"

definition getExtensionWindowStateFromEvent :: "dom \<Rightarrow> Event \<Rightarrow> CommonExtensionWindowState" where
  "getExtensionWindowStateFromEvent d ev =
     (let newState = foldl (scanTarget d) nullState (composedPath ev)
      in newState\<lparr> focusTerminal := activeTerminal newState,
                    focusTextEditor := activeTextEditor newState,
                    focusViewerElement := activeViewerElement newState \<rparr>)"

definition mergeExtensionWindowState ::
  "CommonExtensionWindowState \<Rightarrow> CommonExtensionWindowState \<Rightarrow> CommonExtensionWindowState" where
  "mergeExtensionWindowState newState state =
     (let state1 =
            (if activeTabContent state = activeTabContent newState
             then state\<lparr> activeTerminal := jsOr (focusTerminal newState) (activeTerminal state),
                         activeTextEditor := jsOr (focusTextEditor newState) (activeTextEditor state),
                         activeViewerElement :=
                           jsOr (focusViewerElement newState) (activeViewerElement state) \<rparr>
             else state\<lparr> activeTerminal := focusTerminal newState,
                         focusTerminal := focusTerminal newState,
                         activeTextEditor := focusTextEditor newState,
                         focusTextEditor := focusTextEditor newState,
                         activeViewerElement := focusViewerElement newState,
                         focusViewerElement := focusViewerElement newState \<rparr>)
      in state1\<lparr> activeTabsWidget := activeTabsWidget newState,
                  activeTabContent := activeTabContent newState,
                  isInputFieldFocus := isInputFieldFocus newState \<rparr>)"

definition updateExtensionWindowStateFromEvent ::
  "dom \<Rightarrow> Event \<Rightarrow> ExtensionManagerImpl \<Rightarrow> ExtensionManagerImpl" where
  "updateExtensionWindowStateFromEvent d ev m =
     (let newState = getExtensionWindowStateFromEvent d ev
      in m\<lparr>p_commonExtensionWindowState :=
             mergeExtensionWindowState newState (p_commonExtensionWindowState m)\<rparr>)"

text \<open>\<^verbatim>\<open>for (const key in newState) this._commonExtensionWindowState[key] = newState[key]\<close>:
  a state object holds the nine keys, and each is copied.\<close>

definition setExtensionWindowState ::
  "CommonExtensionWindowState \<Rightarrow> ExtensionManagerImpl \<Rightarrow> ExtensionManagerImpl" where
  "setExtensionWindowState newState m =
     m\<lparr>p_commonExtensionWindowState :=
         (p_commonExtensionWindowState m)
           \<lparr> activeTabContent := activeTabContent newState,
             activeTerminal := activeTerminal newState,
             focusTerminal := focusTerminal newState,
             activeTextEditor := activeTextEditor newState,
             focusTextEditor := focusTextEditor newState,
             activeTabsWidget := activeTabsWidget newState,
             activeViewerElement := activeViewerElement newState,
             focusViewerElement := focusViewerElement newState,
             isInputFieldFocus := isInputFieldFocus newState \<rparr>\<rparr>"

definition copyExtensionWindowState :: "ExtensionManagerImpl \<Rightarrow> CommonExtensionWindowState" where
  "copyExtensionWindowState m = p_commonExtensionWindowState m"

subsection \<open>Starting the extensions\<close>

definition newInternalExtensionContextImpl :: "ExtensionMetadata \<Rightarrow> InternalExtensionContext" where
  "newInternalExtensionContextImpl md =
     \<lparr> extensionMetadata = md,
       commands = \<lparr> getCommandFunction = (\<lambda>n. None), getFunctionCustomizer = (\<lambda>n. None) \<rparr> \<rparr>"

definition loadExtensionModule ::
  "Host \<Rightarrow> ExtensionMetadata \<Rightarrow> string \<Rightarrow> ExtensionManagerImpl
     \<Rightarrow> ExtensionModule option \<times> ExtensionManagerImpl" where
  "loadExtensionModule h extension mainFile m =
     (let mainJsPath = pathJoin h (path extension) mainFile
      in case require h mainJsPath of
           Inr md \<Rightarrow> (Some md, m)
         | Inl ex \<Rightarrow> (None, logWarn [''Unable to load '' @ mainJsPath @ ''. '' @ ex] m))"

definition startExtension :: "Host \<Rightarrow> ExtensionMetadata \<Rightarrow> ExtensionManagerImpl \<Rightarrow> ExtensionManagerImpl" where
  "startExtension h md m =
     (let m1 = logInfo [''Starting extension '' @ quoted (name md) @ '' in the render process.''] m;
          ctx = newInternalExtensionContextImpl md
      in case main md of
           None \<Rightarrow>
             m1\<lparr>p_activeExtensions := p_activeExtensions m1 @
                  [\<lparr> metadata = md, contextImpl = ctx, publicApi = JNull, module = None \<rparr>]\<rparr>
         | Some mainFile \<Rightarrow>
             (case loadExtensionModule h md mainFile m1 of
                (None, m2) \<Rightarrow> m2
              | (Some mo, m2) \<Rightarrow>
                  (case activate mo ctx of
                     Inl ex \<Rightarrow>
                       logWarn [''Exception occurred while starting extensions '' @ name md
                                @ ''. '' @ ex] m2
                   | Inr (api, registry) \<Rightarrow>
                       m2\<lparr>p_activeExtensions := p_activeExtensions m2 @
                            [\<lparr> metadata = md, contextImpl = ctx\<lparr>commands := registry\<rparr>,
                               publicApi = api, module = Some mo \<rparr>]\<rparr>)))"

definition startUp :: "Host \<Rightarrow> ExtensionManagerImpl \<Rightarrow> ExtensionManagerImpl" where
  "startUp h m =
     (let m0 = m\<lparr>p_extensionMetadata := requestExtensionMetadataSync h\<rparr>
      in foldl (\<lambda>acc extensionInfo.
                  if \<not> isMainProcessExtension h extensionInfo
                     \<and> isSupportedOnThisPlatform h extensionInfo
                  then startExtension h extensionInfo acc else acc)
               m0 (p_extensionMetadata m0))"


subsection \<open>When-variables and the command query\<close>

definition createWhenVariables :: "dom \<Rightarrow> CommonExtensionWindowState \<Rightarrow> WhenVariables" where
  "createWhenVariables d state =
     (let w0 = \<lparr> v_true = True, v_false = False, terminalFocus = False, isCursorMode = False,
                 isNormalMode = False, textEditorFocus = False, isTextEditing = False,
                 viewerFocus = False \<rparr>;
          w1 = (case focusTerminal state of
                  Some t \<Rightarrow>
                    (let w = w0\<lparr>terminalFocus := True\<rparr>
                     in if getMode (d t) = CURSOR then w\<lparr>isCursorMode := True\<rparr>
                        else w\<lparr>isNormalMode := True\<rparr>)
                | None \<Rightarrow>
                    (if focusViewerElement state \<noteq> None then w0\<lparr>viewerFocus := True\<rparr> else w0))
      in case focusTextEditor state of
           None \<Rightarrow> w1
         | Some e \<Rightarrow>
             (if \<not> (terminalFocus w1 \<and> isNormalMode w1)
              then (let w2 = w1\<lparr>textEditorFocus := True\<rparr>
                    in if getEditable (d e) then w2\<lparr>isTextEditing := True\<rparr> else w2)
              else w1))"

definition createWhenPredicate ::
  "Host \<Rightarrow> dom \<Rightarrow> CommonExtensionWindowState \<Rightarrow> ExtensionCommandContribution \<Rightarrow> bool" where
  "createWhenPredicate h d state ecc =
     (let variables = createWhenVariables d state
      in if whenClause ecc = [] then True else beeEvaluate h variables (whenClause ecc))"

text \<open>The options of a query; an absent option is \<open>None\<close>. An element of
  \<^verbatim>\<open>commandsWithCategories\<close> is the pair of its \<^verbatim>\<open>command\<close> and its \<^verbatim>\<open>category\<close>.\<close>

record CommandQueryOptions =
  q_commandPalette :: "bool option"
  q_contextMenu :: "bool option"
  q_emptyPaneMenu :: "bool option"
  q_newTerminalMenu :: "bool option"
  q_categories :: "string list option"
  q_commandsWithCategories :: "(string \<times> string) list option"
  q_when :: "bool option"

text \<open>The \<^verbatim>\<open>Map\<close> from a category to the commands asked for in it (lines 245 to 251).\<close>

definition buildIndex :: "(string \<times> string) list \<Rightarrow> (string \<rightharpoonup> string list)" where
  "buildIndex commandsWithCategories =
     foldl (\<lambda>index (cmd, cat).
              (let index1 = (if index cat = None then index(cat \<mapsto> []) else index)
               in case index1 cat of
                    None \<Rightarrow> index1
                  | Some l \<Rightarrow> index1(cat \<mapsto> l @ [cmd])))
           Map.empty commandsWithCategories"

definition qualifies ::
  "Host \<Rightarrow> dom \<Rightarrow> CommandQueryOptions \<Rightarrow> CommonExtensionWindowState
     \<Rightarrow> ExtensionCommandContribution \<Rightarrow> bool" where
  "qualifies h d options context c =
     (let commandPalettePredicate =
            (case q_commandPalette options of None \<Rightarrow> True | Some b \<Rightarrow> commandPalette c = b);
          contextMenuPredicate =
            (case q_contextMenu options of None \<Rightarrow> True | Some b \<Rightarrow> contextMenu c = b);
          emptyPaneMenuPredicate =
            (case q_emptyPaneMenu options of None \<Rightarrow> True | Some b \<Rightarrow> emptyPaneMenu c = b);
          newTerminalMenuPredicate =
            (case q_newTerminalMenu options of None \<Rightarrow> True | Some b \<Rightarrow> newTerminalMenu c = b);
          categoryPredicate =
            (case q_categories options of
               None \<Rightarrow> True
             | Some categories \<Rightarrow> indexOf categories (category c) \<noteq> - 1);
          commandPredicate =
            (case q_commandsWithCategories options of
               None \<Rightarrow> True
             | Some commandsWithCategories \<Rightarrow>
                 (case buildIndex commandsWithCategories (category c) of
                    None \<Rightarrow> False
                  | Some l \<Rightarrow> indexOf l (command c) \<noteq> - 1));
          whenPredicate =
            (if q_when options = Some True then createWhenPredicate h d context c else True)
      in commandPredicate \<and> commandPalettePredicate \<and> contextMenuPredicate
         \<and> emptyPaneMenuPredicate \<and> newTerminalMenuPredicate \<and> categoryPredicate
         \<and> whenPredicate)"

text \<open>The entries pushed by the two loops (lines 263 to 278), in the order pushed.\<close>

definition collectEntries ::
  "Host \<Rightarrow> dom \<Rightarrow> CommandQueryOptions \<Rightarrow> CommonExtensionWindowState \<Rightarrow> ExtensionManagerImpl
     \<Rightarrow> ExtensionCommandContribution list" where
  "collectEntries h d options context m =
     concat (map (\<lambda>activeExtension.
                    map (\<lambda>c. case getFunctionCustomizer (commands (contextImpl activeExtension))
                                     (command c) of
                                Some customized \<Rightarrow> spread c customized
                              | None \<Rightarrow> c)
                        (filter (qualifies h d options context)
                                (contributes_commands (metadata activeExtension))))
                 (p_activeExtensions m))"

definition allCategories :: "string list" where
  "allCategories =
     [''textEditing'', ''terminalCursorMode'', ''terminal'', ''viewer'', ''window'',
      ''application'', ''global'']"

definition sortCompareFunc :: "ExtensionCommandContribution \<Rightarrow> ExtensionCommandContribution \<Rightarrow> int" where
  "sortCompareFunc a b =
     (let aIndex = indexOf allCategories (category a);
          bIndex = indexOf allCategories (category b)
      in if aIndex \<noteq> bIndex then (if aIndex < bIndex then - 1 else 1)
         else if order a \<noteq> order b then (if order a < order b then - 1 else 1)
         else if title a \<noteq> title b then (if title a < title b then - 1 else 1)
         else 0)"

text \<open>\<^verbatim>\<open>Array.prototype.sort\<close> with a compare function is a stable sort (ECMAScript
  2019): an element goes before the first one it does not compare greater than, and
  the elements are inserted from the last to the first.\<close>

fun insertSorted :: "('a \<Rightarrow> 'a \<Rightarrow> int) \<Rightarrow> 'a \<Rightarrow> 'a list \<Rightarrow> 'a list" where
  "insertSorted cmp x [] = [x]"
| "insertSorted cmp x (y # ys) =
     (if cmp x y \<le> 0 then x # y # ys else y # insertSorted cmp x ys)"

definition arraySort :: "('a \<Rightarrow> 'a \<Rightarrow> int) \<Rightarrow> 'a list \<Rightarrow> 'a list" where
  "arraySort cmp xs = foldr (insertSorted cmp) xs []"

definition sortCommandsInPlace :: "ExtensionCommandContribution list \<Rightarrow> ExtensionCommandContribution list" where
  "sortCommandsInPlace entries = arraySort sortCompareFunc entries"

definition queryCommandsWithExtensionWindowState ::
  "Host \<Rightarrow> dom \<Rightarrow> CommandQueryOptions \<Rightarrow> CommonExtensionWindowState \<Rightarrow> ExtensionManagerImpl
     \<Rightarrow> ExtensionCommandContribution list" where
  "queryCommandsWithExtensionWindowState h d options context m =
     sortCommandsInPlace (collectEntries h d options context m)"

definition queryCommands ::
  "Host \<Rightarrow> dom \<Rightarrow> CommandQueryOptions \<Rightarrow> ExtensionManagerImpl \<Rightarrow> ExtensionCommandContribution list" where
  "queryCommands h d options m =
     queryCommandsWithExtensionWindowState h d options (p_commonExtensionWindowState m) m"

text \<open>The sort key of the specification: the position of the category in the fixed
  enumeration, the order, the title.\<close>

definition sortKey :: "ExtensionCommandContribution \<Rightarrow> int \<times> int \<times> string" where
  "sortKey c = (indexOf allCategories (category c), order c, title c)"

subsection \<open>Executing a command\<close>

text \<open>The name portion and the query portion of a command string (lines 364 to 371).\<close>

definition commandNamePart :: "string \<Rightarrow> string" where
  "commandNamePart cmd =
     (let qIndex = indexOf cmd (CHR ''?'')
      in if qIndex \<noteq> - 1 then slice cmd 0 (nat qIndex) else cmd)"

definition argsStringPart :: "string \<Rightarrow> string option" where
  "argsStringPart cmd =
     (let qIndex = indexOf cmd (CHR ''?'')
      in if qIndex \<noteq> - 1 then Some (sliceFrom cmd (nat (qIndex + 1))) else None)"

text \<open>The extension's name, with the alias \<^verbatim>\<open>extraterm\<close> (lines 379 to 382); the caller
  has checked that there are two parts.\<close>

definition resolveExtensionName :: "string list \<Rightarrow> string" where
  "resolveExtensionName parts =
     (let extensionName = parts ! 0
      in if extensionName = ''extraterm'' then ''internal-commands'' else extensionName)"

text \<open>The arguments the command function gets (lines 384 to 390); decoding can throw.\<close>

definition resolveArgs :: "Host \<Rightarrow> jsvalue \<Rightarrow> string option \<Rightarrow> string + jsvalue" where
  "resolveArgs h args argsString =
     (if args = JUndefined
      then (case argsString of
              Some s \<Rightarrow>
                (case decodeURIComponent h s of
                   Inl ex \<Rightarrow> Inl ex
                 | Inr decoded \<Rightarrow> jsonParse h decoded)
            | None \<Rightarrow> Inr (JObject []))
      else Inr args)"

definition runCommandFunc ::
  "string \<Rightarrow> commandFunc \<Rightarrow> jsvalue \<Rightarrow> ExtensionManagerImpl
     \<Rightarrow> (string + jsvalue) \<times> ExtensionManagerImpl" where
  "runCommandFunc nm commandFunc args m =
     (case commandFunc args (p_commonExtensionWindowState m) of
        (Inr v, w) \<Rightarrow> (Inr v, m\<lparr>p_commonExtensionWindowState := w\<rparr>)
      | (Inl ex, w) \<Rightarrow>
          (Inr JNull,
           logWarn [''Command '' @ quoted nm @ '' threw an exception.'', ex]
             (m\<lparr>p_commonExtensionWindowState := w\<rparr>)))"

definition executeCommand ::
  "Host \<Rightarrow> string \<Rightarrow> jsvalue \<Rightarrow> ExtensionManagerImpl
     \<Rightarrow> (string + jsvalue) \<times> ExtensionManagerImpl" where
  "executeCommand h cmd args m =
     (let commandName = commandNamePart cmd;
          argsString = argsStringPart cmd;
          parts = split commandName (CHR '':'')
      in if length parts \<noteq> 2
         then (Inr JNull,
               logWarn [''Command '' @ quoted cmd
                        @ '' does have the right form. (Wrong numer of colons.)''] m)
         else
           (let extensionName = resolveExtensionName parts
            in case resolveArgs h args argsString of
                 Inl ex \<Rightarrow> (Inl ex, m)
               | Inr args1 \<Rightarrow>
                   (case find (\<lambda>ext. name (metadata ext) = extensionName)
                              (p_activeExtensions m) of
                      Some ext \<Rightarrow>
                        (case getCommandFunction (commands (contextImpl ext)) commandName of
                           None \<Rightarrow>
                             (Inr JNull,
                              logWarn [''Unable to find command '' @ quoted commandName
                                       @ '' in extension '' @ quoted extensionName @ ''.''] m)
                         | Some commandFunc \<Rightarrow>
                             runCommandFunc commandName commandFunc args1 m)
                    | None \<Rightarrow>
                        (Inr JNull,
                         logWarn [''Unable to find extension with name ''
                                  @ quoted extensionName @ '' for command ''
                                  @ quoted commandName @ ''.''] m))))"

text \<open>An exception of \<^verbatim>\<open>executeCommand\<close> leaves the function before the old state is
  set again.\<close>

definition executeCommandWithExtensionWindowState ::
  "Host \<Rightarrow> CommonExtensionWindowState \<Rightarrow> string \<Rightarrow> jsvalue \<Rightarrow> ExtensionManagerImpl
     \<Rightarrow> (string + jsvalue) \<times> ExtensionManagerImpl" where
  "executeCommandWithExtensionWindowState h tempState cmd args m =
     (let oldState = copyExtensionWindowState m;
          m1 = setExtensionWindowState tempState m
      in case executeCommand h cmd args m1 of
           (Inl ex, m2) \<Rightarrow> (Inl ex, m2)
         | (Inr result, m2) \<Rightarrow> (Inr result, setExtensionWindowState oldState m2))"


subsection \<open>A window to evaluate the definitions on\<close>

text \<open>A tab widget (10) holds a container (11) with two tab contents (12 and 20). In
  tab 12 a terminal (13) holds a second terminal-capable node (14), which holds a text
  viewer (16); an input field (15) stands beside the terminals.\<close>

definition plainElement :: Element where
  "plainElement =
     \<lparr> instanceofEtTerminal = False, instanceofTerminalViewer = False,
       instanceofTextViewer = False, instanceofViewerElement = False,
       instanceofEmbeddedViewer = False, instanceofTabWidget = False,
       instanceofHTMLInputElement = False, parentElement = None, getMode = DEFAULT,
       getEditable = False \<rparr>"

definition exampleDom :: dom where
  "exampleDom r =
     (if r = 10 then plainElement\<lparr>instanceofTabWidget := True\<rparr>
      else if r = 11 then plainElement\<lparr>parentElement := Some 10\<rparr>
      else if r = 12 then plainElement\<lparr>parentElement := Some 11\<rparr>
      else if r = 20 then plainElement\<lparr>parentElement := Some 11\<rparr>
      else if r = 13 then plainElement\<lparr>instanceofEtTerminal := True, parentElement := Some 12\<rparr>
      else if r = 14 then plainElement\<lparr>instanceofEtTerminal := True, parentElement := Some 13,
                                        getMode := CURSOR\<rparr>
      else if r = 15 then plainElement\<lparr>instanceofHTMLInputElement := True,
                                        parentElement := Some 12\<rparr>
      else if r = 16 then plainElement\<lparr>instanceofTextViewer := True,
                                        instanceofViewerElement := True,
                                        parentElement := Some 14, getEditable := True\<rparr>
      else plainElement)"

definition evViewer :: Event where
  "evViewer = \<lparr> composedPath = [16, 14, 13, 12, 11, 10] \<rparr>"

definition evInput :: Event where
  "evInput = \<lparr> composedPath = [15, 12, 11, 10] \<rparr>"

definition evOtherTab :: Event where
  "evOtherTab = \<lparr> composedPath = [20, 11, 10] \<rparr>"

definition initialManager :: ExtensionManagerImpl where
  "initialManager =
     \<lparr> p_log = [], p_extensionMetadata = [], p_activeExtensions = [],
       p_commonExtensionWindowState = nullState \<rparr>"

text \<open>The state the viewer event gives, as evaluated by \<open>viewerState_eval\<close> below.\<close>

definition viewerState :: CommonExtensionWindowState where
  "viewerState =
     \<lparr> activeTabContent = Some 12, activeTerminal = Some 13, focusTerminal = Some 13,
       activeTextEditor = Some 16, focusTextEditor = Some 16, activeTabsWidget = Some 10,
       activeViewerElement = Some 16, focusViewerElement = Some 16,
       isInputFieldFocus = False \<rparr>"

subsection \<open>Extensions to evaluate the definitions on\<close>

text \<open>Five extensions are discovered. The first declares commands and has no module; the
  module of the second does not load; the activation of the third throws; the fourth
  loads and registers three command functions, of which one throws; the fifth is for the
  main process only.\<close>

definition contribution :: "string \<Rightarrow> string \<Rightarrow> string \<Rightarrow> int \<Rightarrow> ExtensionCommandContribution" where
  "contribution c t cat n =
     \<lparr> command = c, title = t, whenClause = [], category = cat, order = n,
       commandPalette = True, contextMenu = False, emptyPaneMenu = False,
       newTerminalMenu = False \<rparr>"

definition extInternal :: ExtensionMetadata where
  "extInternal =
     \<lparr> name = ''internal-commands'', path = ''/ext/internal'', main = None,
       contributes_commands =
         [contribution ''extraterm:window.newTab'' ''New Tab'' ''window'' 10,
          contribution ''extraterm:custom.thing'' ''A Thing'' ''custom'' 99,
          contribution ''extraterm:window.closeTab'' ''Close Tab'' ''window'' 10] \<rparr>"

definition extUnloadable :: ExtensionMetadata where
  "extUnloadable =
     \<lparr> name = ''unloadable'', path = ''/ext/unloadable'', main = Some ''main.js'',
       contributes_commands = [] \<rparr>"

definition extThrowing :: ExtensionMetadata where
  "extThrowing =
     \<lparr> name = ''throwing'', path = ''/ext/throwing'', main = Some ''main.js'',
       contributes_commands = [] \<rparr>"

definition extTools :: ExtensionMetadata where
  "extTools =
     \<lparr> name = ''tools'', path = ''/ext/tools'', main = Some ''main.js'',
       contributes_commands =
         [contribution ''tools:hello'' ''Hello'' ''global'' 5,
          contribution ''tools:first'' ''Edit'' ''textEditing'' 7,
          contribution ''tools:twin'' ''Close Tab'' ''window'' 10] \<rparr>"

definition extMainOnly :: ExtensionMetadata where
  "extMainOnly =
     \<lparr> name = ''main-only'', path = ''/ext/main-only'', main = Some ''main.js'',
       contributes_commands = [] \<rparr>"

definition helloFunc :: commandFunc where
  "helloFunc args w = (Inr (JString ''hello''), w\<lparr>isInputFieldFocus := True\<rparr>)"

definition boomFunc :: commandFunc where
  "boomFunc args w = (Inl ''Error: boom'', w\<lparr>activeTerminal := None\<rparr>)"

text \<open>A command function that returns the active terminal it finds and wipes the
  window state.\<close>

definition probeFunc :: commandFunc where
  "probeFunc args w =
     (Inr (case activeTerminal w of None \<Rightarrow> JNull | Some t \<Rightarrow> JNumber (int t)), nullState)"

definition toolsRegistry :: CommandsRegistry where
  "toolsRegistry =
     \<lparr> getCommandFunction =
         (\<lambda>n. if n = ''tools:hello'' then Some helloFunc
              else if n = ''tools:boom'' then Some boomFunc
              else if n = ''tools:probe'' then Some probeFunc else None),
       getFunctionCustomizer = (\<lambda>n. None) \<rparr>"

definition throwingModule :: ExtensionModule where
  "throwingModule = \<lparr> activate = (\<lambda>ctx. Inl ''Error: cannot activate'') \<rparr>"

definition toolsModule :: ExtensionModule where
  "toolsModule = \<lparr> activate = (\<lambda>ctx. Inr (JNull, toolsRegistry)) \<rparr>"

text \<open>The host of the examples. Its \<^verbatim>\<open>decodeURIComponent\<close> and \<^verbatim>\<open>JSON.parse\<close> are given
  on the strings the examples use: a string without a percent sign decodes to itself,
  and a percent sign that no two hexadecimal digits follow is malformed.\<close>

definition exampleHost :: Host where
  "exampleHost =
     \<lparr> requestExtensionMetadataSync =
         [extInternal, extUnloadable, extThrowing, extTools, extMainOnly],
       isMainProcessExtension = (\<lambda>md. name md = ''main-only''),
       isSupportedOnThisPlatform = (\<lambda>md. True),
       pathJoin = (\<lambda>a b. a @ ''/'' @ b),
       require =
         (\<lambda>p. if p = ''/ext/throwing/main.js'' then Inr throwingModule
              else if p = ''/ext/tools/main.js'' then Inr toolsModule
              else Inl ''Error: Cannot find module''),
       decodeURIComponent =
         (\<lambda>s. if s = ''%'' then Inl ''URIError: URI malformed'' else Inr s),
       jsonParse =
         (\<lambda>s. if s = ''{}'' then Inr (JObject []) else Inl ''SyntaxError: Unexpected token''),
       beeEvaluate = (\<lambda>w s. False) \<rparr>"

definition viewerManager :: ExtensionManagerImpl where
  "viewerManager = initialManager\<lparr>p_commonExtensionWindowState := viewerState\<rparr>"

text \<open>The manager after start-up on the example host, and a query with no filter.\<close>

definition noOptions :: CommandQueryOptions where
  "noOptions =
     \<lparr> q_commandPalette = None, q_contextMenu = None, q_emptyPaneMenu = None,
       q_newTerminalMenu = None, q_categories = None, q_commandsWithCategories = None,
       q_when = None \<rparr>"

definition exampleManager :: ExtensionManagerImpl where
  "exampleManager = startUp exampleHost initialManager"

subsection \<open>What the specification says of start-up, as predicates on a descriptor\<close>

text \<open>The extension is one that \<^verbatim>\<open>startUp\<close> activates: not for the main process only,
  and supported on this platform.\<close>

definition startedHere :: "Host \<Rightarrow> ExtensionMetadata \<Rightarrow> bool" where
  "startedHere h md = (\<not> isMainProcessExtension h md \<and> isSupportedOnThisPlatform h md)"

text \<open>The activation of the extension does not fail: it has no module, or its module
  loads and \<^verbatim>\<open>activate\<close> returns.\<close>

definition activationSucceeds :: "Host \<Rightarrow> ExtensionMetadata \<Rightarrow> bool" where
  "activationSucceeds h md =
     (case main md of
        None \<Rightarrow> True
      | Some mainFile \<Rightarrow>
          (case require h (pathJoin h (path md) mainFile) of
             Inl ex \<Rightarrow> False
           | Inr mo \<Rightarrow>
               (case activate mo (newInternalExtensionContextImpl md) of
                  Inl ex \<Rightarrow> False
                | Inr r \<Rightarrow> True)))"

section \<open>Properties of the focus state\<close>

subsection \<open>Evaluation on the example window\<close>

lemma scanTarget_exampleDom:
  "scanTarget exampleDom s 10 = s\<lparr>activeTabsWidget := Some 10\<rparr>"
  "scanTarget exampleDom s 11 = s"
  "scanTarget exampleDom s 12 = s\<lparr>activeTabContent := Some 12\<rparr>"
  "scanTarget exampleDom s 20 = s\<lparr>activeTabContent := Some 20\<rparr>"
  "scanTarget exampleDom s 13 = s\<lparr>activeTerminal := Some 13\<rparr>"
  "scanTarget exampleDom s 14 = s\<lparr>activeTerminal := Some 14\<rparr>"
  "scanTarget exampleDom s 15 = s\<lparr>isInputFieldFocus := True\<rparr>"
  by (simp_all add: scanTarget_def exampleDom_def plainElement_def Let_def)

lemma scanTarget_exampleDom_16:
  "activeViewerElement s = None \<Longrightarrow>
   scanTarget exampleDom s 16 = s\<lparr>activeTextEditor := Some 16, activeViewerElement := Some 16\<rparr>"
  by (simp add: scanTarget_def exampleDom_def plainElement_def Let_def)

lemma viewerState_eval: "getExtensionWindowStateFromEvent exampleDom evViewer = viewerState"
  by (simp add: getExtensionWindowStateFromEvent_def evViewer_def Let_def scanTarget_exampleDom
      scanTarget_exampleDom_16 nullState_def viewerState_def)

lemma inputState_eval:
  "getExtensionWindowStateFromEvent exampleDom evInput =
     nullState\<lparr>activeTabContent := Some 12, activeTabsWidget := Some 10,
                 isInputFieldFocus := True\<rparr>"
  by (simp add: getExtensionWindowStateFromEvent_def evInput_def Let_def scanTarget_exampleDom
      nullState_def)

lemma otherTabState_eval:
  "getExtensionWindowStateFromEvent exampleDom evOtherTab =
     nullState\<lparr>activeTabContent := Some 20, activeTabsWidget := Some 10\<rparr>"
  by (simp add: getExtensionWindowStateFromEvent_def evOtherTab_def Let_def scanTarget_exampleDom
      nullState_def)

lemma viewerManager_state: "p_commonExtensionWindowState viewerManager = viewerState"
  by (simp add: viewerManager_def)

subsection \<open>The scan of the composed path\<close>

lemma scanTarget_activeTerminal:
  "activeTerminal (scanTarget d s t) =
     (if instanceofEtTerminal (d t) then Some t else activeTerminal s)"
  by (simp add: scanTarget_def Let_def)

lemma foldl_scanTarget_activeTerminal:
  "activeTerminal (foldl (scanTarget d) s ts) =
     (if filter (\<lambda>t. instanceofEtTerminal (d t)) ts = [] then activeTerminal s
      else Some (last (filter (\<lambda>t. instanceofEtTerminal (d t)) ts)))"
  by (induction ts arbitrary: s) (simp_all add: scanTarget_activeTerminal)

lemma getState_focus_mirrors_active:
  "focusTerminal (getExtensionWindowStateFromEvent d ev) =
     activeTerminal (getExtensionWindowStateFromEvent d ev)"
  "focusTextEditor (getExtensionWindowStateFromEvent d ev) =
     activeTextEditor (getExtensionWindowStateFromEvent d ev)"
  "focusViewerElement (getExtensionWindowStateFromEvent d ev) =
     activeViewerElement (getExtensionWindowStateFromEvent d ev)"
  by (simp_all add: getExtensionWindowStateFromEvent_def Let_def)

subsection \<open>The merge\<close>

lemma merge_same_tab:
  assumes "activeTabContent C = activeTabContent S"
  shows "activeTerminal (mergeExtensionWindowState S C) = jsOr (focusTerminal S) (activeTerminal C)"
    and "activeTextEditor (mergeExtensionWindowState S C) =
           jsOr (focusTextEditor S) (activeTextEditor C)"
    and "activeViewerElement (mergeExtensionWindowState S C) =
           jsOr (focusViewerElement S) (activeViewerElement C)"
    and "focusTerminal (mergeExtensionWindowState S C) = focusTerminal C"
    and "focusTextEditor (mergeExtensionWindowState S C) = focusTextEditor C"
    and "focusViewerElement (mergeExtensionWindowState S C) = focusViewerElement C"
  using assms by (simp_all add: mergeExtensionWindowState_def Let_def)

lemma merge_other_tab:
  assumes "activeTabContent C \<noteq> activeTabContent S"
  shows "activeTerminal (mergeExtensionWindowState S C) = focusTerminal S"
    and "activeTextEditor (mergeExtensionWindowState S C) = focusTextEditor S"
    and "activeViewerElement (mergeExtensionWindowState S C) = focusViewerElement S"
    and "focusTerminal (mergeExtensionWindowState S C) = focusTerminal S"
    and "focusTextEditor (mergeExtensionWindowState S C) = focusTextEditor S"
    and "focusViewerElement (mergeExtensionWindowState S C) = focusViewerElement S"
  using assms by (simp_all add: mergeExtensionWindowState_def Let_def)

lemma merge_always:
  "activeTabsWidget (mergeExtensionWindowState S C) = activeTabsWidget S"
  "activeTabContent (mergeExtensionWindowState S C) = activeTabContent S"
  "isInputFieldFocus (mergeExtensionWindowState S C) = isInputFieldFocus S"
  by (simp_all add: mergeExtensionWindowState_def Let_def)

lemma update_state:
  "p_commonExtensionWindowState (updateExtensionWindowStateFromEvent d ev m) =
     mergeExtensionWindowState (getExtensionWindowStateFromEvent d ev)
       (p_commonExtensionWindowState m)"
  by (simp add: updateExtensionWindowStateFromEvent_def Let_def)

lemma jsOr_sticky: "b \<noteq> None \<Longrightarrow> jsOr a b \<noteq> None"
  by (simp add: jsOr_def split: option.splits)

lemma same_tab_sequence:
  assumes "\<forall>ev \<in> set evs. activeTabContent (getExtensionWindowStateFromEvent d ev)
             = activeTabContent (p_commonExtensionWindowState m)"
  shows "(activeTerminal (p_commonExtensionWindowState m) \<noteq> None \<longrightarrow>
            activeTerminal (p_commonExtensionWindowState
              (foldl (\<lambda>m ev. updateExtensionWindowStateFromEvent d ev m) m evs)) \<noteq> None)
       \<and> (activeTextEditor (p_commonExtensionWindowState m) \<noteq> None \<longrightarrow>
            activeTextEditor (p_commonExtensionWindowState
              (foldl (\<lambda>m ev. updateExtensionWindowStateFromEvent d ev m) m evs)) \<noteq> None)
       \<and> (activeViewerElement (p_commonExtensionWindowState m) \<noteq> None \<longrightarrow>
            activeViewerElement (p_commonExtensionWindowState
              (foldl (\<lambda>m ev. updateExtensionWindowStateFromEvent d ev m) m evs)) \<noteq> None)"
  using assms
proof (induction evs arbitrary: m)
  case Nil
  then show ?case by simp
next
  case (Cons ev evs)
  let ?m1 = "updateExtensionWindowStateFromEvent d ev m"
  have same: "activeTabContent (p_commonExtensionWindowState m) =
                activeTabContent (getExtensionWindowStateFromEvent d ev)"
    using Cons.prems by simp
  have tab: "activeTabContent (p_commonExtensionWindowState ?m1) =
               activeTabContent (p_commonExtensionWindowState m)"
    using same by (simp add: update_state merge_always)
  have rest: "\<forall>e \<in> set evs. activeTabContent (getExtensionWindowStateFromEvent d e)
                = activeTabContent (p_commonExtensionWindowState ?m1)"
    using Cons.prems tab by simp
  note ih = Cons.IH [OF rest]
  have t: "activeTerminal (p_commonExtensionWindowState m) \<noteq> None \<Longrightarrow>
           activeTerminal (p_commonExtensionWindowState ?m1) \<noteq> None"
    by (simp add: update_state merge_same_tab [OF same] jsOr_sticky)
  have e: "activeTextEditor (p_commonExtensionWindowState m) \<noteq> None \<Longrightarrow>
           activeTextEditor (p_commonExtensionWindowState ?m1) \<noteq> None"
    by (simp add: update_state merge_same_tab [OF same] jsOr_sticky)
  have v: "activeViewerElement (p_commonExtensionWindowState m) \<noteq> None \<Longrightarrow>
           activeViewerElement (p_commonExtensionWindowState ?m1) \<noteq> None"
    by (simp add: update_state merge_same_tab [OF same] jsOr_sticky)
  show ?case using ih t e v by simp
qed

text \<open>
  Claim C1. When the snapshot computed from an event has the active tab content of the
  canonical state, \<^verbatim>\<open>updateExtensionWindowStateFromEvent\<close> sets the active terminal, the
  active text editor and the active viewer element to the snapshot's focus value where
  that value is not null, and keeps the previous active value where it is null. So over
  any sequence of events of the same tab content, an active terminal, text editor or
  viewer element that was set never becomes null.
\<close>

theorem same_tab_sticky_retention:
  "(activeTabContent (getExtensionWindowStateFromEvent d ev)
      = activeTabContent (p_commonExtensionWindowState m) \<longrightarrow>
      activeTerminal (p_commonExtensionWindowState (updateExtensionWindowStateFromEvent d ev m))
        = (case focusTerminal (getExtensionWindowStateFromEvent d ev) of
             None \<Rightarrow> activeTerminal (p_commonExtensionWindowState m)
           | Some t \<Rightarrow> Some t)
    \<and> activeTextEditor (p_commonExtensionWindowState (updateExtensionWindowStateFromEvent d ev m))
        = (case focusTextEditor (getExtensionWindowStateFromEvent d ev) of
             None \<Rightarrow> activeTextEditor (p_commonExtensionWindowState m)
           | Some t \<Rightarrow> Some t)
    \<and> activeViewerElement (p_commonExtensionWindowState (updateExtensionWindowStateFromEvent d ev m))
        = (case focusViewerElement (getExtensionWindowStateFromEvent d ev) of
             None \<Rightarrow> activeViewerElement (p_commonExtensionWindowState m)
           | Some t \<Rightarrow> Some t))
   \<and> ((\<forall>e \<in> set evs. activeTabContent (getExtensionWindowStateFromEvent d e)
          = activeTabContent (p_commonExtensionWindowState m)) \<longrightarrow>
       (activeTerminal (p_commonExtensionWindowState m) \<noteq> None \<longrightarrow>
          activeTerminal (p_commonExtensionWindowState
            (foldl (\<lambda>m e. updateExtensionWindowStateFromEvent d e m) m evs)) \<noteq> None)
     \<and> (activeTextEditor (p_commonExtensionWindowState m) \<noteq> None \<longrightarrow>
          activeTextEditor (p_commonExtensionWindowState
            (foldl (\<lambda>m e. updateExtensionWindowStateFromEvent d e m) m evs)) \<noteq> None)
     \<and> (activeViewerElement (p_commonExtensionWindowState m) \<noteq> None \<longrightarrow>
          activeViewerElement (p_commonExtensionWindowState
            (foldl (\<lambda>m e. updateExtensionWindowStateFromEvent d e m) m evs)) \<noteq> None))"
proof (intro conjI impI)
  assume same: "activeTabContent (getExtensionWindowStateFromEvent d ev)
                  = activeTabContent (p_commonExtensionWindowState m)"
  note ms = merge_same_tab [OF same [symmetric]]
  show "activeTerminal (p_commonExtensionWindowState (updateExtensionWindowStateFromEvent d ev m))
        = (case focusTerminal (getExtensionWindowStateFromEvent d ev) of
             None \<Rightarrow> activeTerminal (p_commonExtensionWindowState m)
           | Some t \<Rightarrow> Some t)"
    by (simp add: update_state ms jsOr_def)
  show "activeTextEditor (p_commonExtensionWindowState (updateExtensionWindowStateFromEvent d ev m))
        = (case focusTextEditor (getExtensionWindowStateFromEvent d ev) of
             None \<Rightarrow> activeTextEditor (p_commonExtensionWindowState m)
           | Some t \<Rightarrow> Some t)"
    by (simp add: update_state ms jsOr_def)
  show "activeViewerElement (p_commonExtensionWindowState (updateExtensionWindowStateFromEvent d ev m))
        = (case focusViewerElement (getExtensionWindowStateFromEvent d ev) of
             None \<Rightarrow> activeViewerElement (p_commonExtensionWindowState m)
           | Some t \<Rightarrow> Some t)"
    by (simp add: update_state ms jsOr_def)
next
  assume all: "\<forall>e \<in> set evs. activeTabContent (getExtensionWindowStateFromEvent d e)
                 = activeTabContent (p_commonExtensionWindowState m)"
  note seq = same_tab_sequence [OF all]
  {
    assume "activeTerminal (p_commonExtensionWindowState m) \<noteq> None"
    then show "activeTerminal (p_commonExtensionWindowState
            (foldl (\<lambda>m e. updateExtensionWindowStateFromEvent d e m) m evs)) \<noteq> None"
      using seq by blast
  }
  {
    assume "activeTextEditor (p_commonExtensionWindowState m) \<noteq> None"
    then show "activeTextEditor (p_commonExtensionWindowState
            (foldl (\<lambda>m e. updateExtensionWindowStateFromEvent d e m) m evs)) \<noteq> None"
      using seq by blast
  }
  {
    assume "activeViewerElement (p_commonExtensionWindowState m) \<noteq> None"
    then show "activeViewerElement (p_commonExtensionWindowState
            (foldl (\<lambda>m e. updateExtensionWindowStateFromEvent d e m) m evs)) \<noteq> None"
      using seq by blast
  }
qed

theorem same_tab_sticky_retention_witness:
  "activeTabContent (getExtensionWindowStateFromEvent exampleDom evInput)
     = activeTabContent (p_commonExtensionWindowState viewerManager)
   \<and> focusTerminal (getExtensionWindowStateFromEvent exampleDom evInput) = None
   \<and> activeTerminal (p_commonExtensionWindowState
        (updateExtensionWindowStateFromEvent exampleDom evInput viewerManager)) = Some 13
   \<and> activeTerminal (p_commonExtensionWindowState
        (foldl (\<lambda>m e. updateExtensionWindowStateFromEvent exampleDom e m) viewerManager
           [evInput, evViewer, evInput])) \<noteq> None"
proof -
  have same: "\<forall>e \<in> set [evInput, evViewer, evInput].
                activeTabContent (getExtensionWindowStateFromEvent exampleDom e)
                  = activeTabContent (p_commonExtensionWindowState viewerManager)"
    by (simp add: inputState_eval viewerState_eval viewerManager_state viewerState_def)
  have set: "activeTerminal (p_commonExtensionWindowState viewerManager) \<noteq> None"
    by (simp add: viewerManager_state viewerState_def)
  show ?thesis
    using same set
      same_tab_sticky_retention [of exampleDom evInput viewerManager "[evInput, evViewer, evInput]"]
    by (simp add: inputState_eval viewerManager_state viewerState_def nullState_def)
qed

text \<open>
  Claim C2. When the snapshot computed from an event has another active tab content than
  the canonical state, the merge sets the active and the focus terminal, text editor and
  viewer element to the snapshot's values, null included; and in every merge the active
  tab container, the active tab content and the input field flag take the snapshot's
  values.
\<close>

theorem other_tab_full_replacement:
  "(activeTabContent (getExtensionWindowStateFromEvent d ev)
      \<noteq> activeTabContent (p_commonExtensionWindowState m) \<longrightarrow>
      activeTerminal (p_commonExtensionWindowState (updateExtensionWindowStateFromEvent d ev m))
        = activeTerminal (getExtensionWindowStateFromEvent d ev)
    \<and> focusTerminal (p_commonExtensionWindowState (updateExtensionWindowStateFromEvent d ev m))
        = focusTerminal (getExtensionWindowStateFromEvent d ev)
    \<and> activeTextEditor (p_commonExtensionWindowState (updateExtensionWindowStateFromEvent d ev m))
        = activeTextEditor (getExtensionWindowStateFromEvent d ev)
    \<and> focusTextEditor (p_commonExtensionWindowState (updateExtensionWindowStateFromEvent d ev m))
        = focusTextEditor (getExtensionWindowStateFromEvent d ev)
    \<and> activeViewerElement (p_commonExtensionWindowState (updateExtensionWindowStateFromEvent d ev m))
        = activeViewerElement (getExtensionWindowStateFromEvent d ev)
    \<and> focusViewerElement (p_commonExtensionWindowState (updateExtensionWindowStateFromEvent d ev m))
        = focusViewerElement (getExtensionWindowStateFromEvent d ev))
   \<and> activeTabsWidget (p_commonExtensionWindowState (updateExtensionWindowStateFromEvent d ev m))
       = activeTabsWidget (getExtensionWindowStateFromEvent d ev)
   \<and> activeTabContent (p_commonExtensionWindowState (updateExtensionWindowStateFromEvent d ev m))
       = activeTabContent (getExtensionWindowStateFromEvent d ev)
   \<and> isInputFieldFocus (p_commonExtensionWindowState (updateExtensionWindowStateFromEvent d ev m))
       = isInputFieldFocus (getExtensionWindowStateFromEvent d ev)"
proof -
  have always:
    "activeTabsWidget (p_commonExtensionWindowState (updateExtensionWindowStateFromEvent d ev m))
       = activeTabsWidget (getExtensionWindowStateFromEvent d ev)"
    "activeTabContent (p_commonExtensionWindowState (updateExtensionWindowStateFromEvent d ev m))
       = activeTabContent (getExtensionWindowStateFromEvent d ev)"
    "isInputFieldFocus (p_commonExtensionWindowState (updateExtensionWindowStateFromEvent d ev m))
       = isInputFieldFocus (getExtensionWindowStateFromEvent d ev)"
    by (simp_all add: update_state merge_always)
  have other:
    "activeTerminal (p_commonExtensionWindowState (updateExtensionWindowStateFromEvent d ev m))
        = activeTerminal (getExtensionWindowStateFromEvent d ev)
    \<and> focusTerminal (p_commonExtensionWindowState (updateExtensionWindowStateFromEvent d ev m))
        = focusTerminal (getExtensionWindowStateFromEvent d ev)
    \<and> activeTextEditor (p_commonExtensionWindowState (updateExtensionWindowStateFromEvent d ev m))
        = activeTextEditor (getExtensionWindowStateFromEvent d ev)
    \<and> focusTextEditor (p_commonExtensionWindowState (updateExtensionWindowStateFromEvent d ev m))
        = focusTextEditor (getExtensionWindowStateFromEvent d ev)
    \<and> activeViewerElement (p_commonExtensionWindowState (updateExtensionWindowStateFromEvent d ev m))
        = activeViewerElement (getExtensionWindowStateFromEvent d ev)
    \<and> focusViewerElement (p_commonExtensionWindowState (updateExtensionWindowStateFromEvent d ev m))
        = focusViewerElement (getExtensionWindowStateFromEvent d ev)"
    if differs: "activeTabContent (getExtensionWindowStateFromEvent d ev)
                   \<noteq> activeTabContent (p_commonExtensionWindowState m)"
  proof -
    note mo = merge_other_tab [OF differs [symmetric]]
    show ?thesis
      by (simp add: update_state mo getState_focus_mirrors_active)
  qed
  show ?thesis using always other by blast
qed

theorem other_tab_full_replacement_witness:
  "activeTabContent (getExtensionWindowStateFromEvent exampleDom evOtherTab)
     \<noteq> activeTabContent (p_commonExtensionWindowState viewerManager)
   \<and> activeTerminal (p_commonExtensionWindowState viewerManager) = Some 13
   \<and> activeTerminal (p_commonExtensionWindowState
        (updateExtensionWindowStateFromEvent exampleDom evOtherTab viewerManager)) = None
   \<and> focusTerminal (p_commonExtensionWindowState
        (updateExtensionWindowStateFromEvent exampleDom evOtherTab viewerManager)) = None
   \<and> activeTabContent (p_commonExtensionWindowState
        (updateExtensionWindowStateFromEvent exampleDom evOtherTab viewerManager)) = Some 20"
  using other_tab_full_replacement [of exampleDom evOtherTab viewerManager]
  by (simp add: otherTabState_eval viewerManager_state viewerState_def nullState_def)

text \<open>
  Claim C10. When the snapshot computed from an event has the active tab content of the
  canonical state, the merge leaves the canonical focus terminal, focus text editor and
  focus viewer element as they were.
\<close>

theorem same_tab_focus_fields_unchanged:
  "activeTabContent (getExtensionWindowStateFromEvent d ev)
     = activeTabContent (p_commonExtensionWindowState m) \<Longrightarrow>
   focusTerminal (p_commonExtensionWindowState (updateExtensionWindowStateFromEvent d ev m))
     = focusTerminal (p_commonExtensionWindowState m)
   \<and> focusTextEditor (p_commonExtensionWindowState (updateExtensionWindowStateFromEvent d ev m))
     = focusTextEditor (p_commonExtensionWindowState m)
   \<and> focusViewerElement (p_commonExtensionWindowState (updateExtensionWindowStateFromEvent d ev m))
     = focusViewerElement (p_commonExtensionWindowState m)"
  by (simp add: update_state merge_same_tab [OF sym])

theorem same_tab_focus_fields_unchanged_witness:
  "activeTabContent (getExtensionWindowStateFromEvent exampleDom evInput)
     = activeTabContent (p_commonExtensionWindowState viewerManager)
   \<and> focusTerminal (getExtensionWindowStateFromEvent exampleDom evInput) = None
   \<and> focusTerminal (p_commonExtensionWindowState
        (updateExtensionWindowStateFromEvent exampleDom evInput viewerManager)) = Some 13
   \<and> focusTextEditor (p_commonExtensionWindowState
        (updateExtensionWindowStateFromEvent exampleDom evInput viewerManager)) = Some 16
   \<and> focusViewerElement (p_commonExtensionWindowState
        (updateExtensionWindowStateFromEvent exampleDom evInput viewerManager)) = Some 16"
proof -
  have same: "activeTabContent (getExtensionWindowStateFromEvent exampleDom evInput)
     = activeTabContent (p_commonExtensionWindowState viewerManager)"
    by (simp add: inputState_eval viewerManager_state viewerState_def)
  show ?thesis
    using same same_tab_focus_fields_unchanged [OF same]
    by (simp add: inputState_eval viewerManager_state viewerState_def nullState_def)
qed

text \<open>
  Claim C6, as the code has it. The scan assigns the active terminal at every
  terminal-capable node of the composed path, so the snapshot's active and focus terminal
  are the last terminal-capable node of the path, the one nearest to the root (and null
  when the path has none).
\<close>

theorem last_terminal_of_path_wins:
  "activeTerminal (getExtensionWindowStateFromEvent d ev) =
     (if filter (\<lambda>t. instanceofEtTerminal (d t)) (composedPath ev) = [] then None
      else Some (last (filter (\<lambda>t. instanceofEtTerminal (d t)) (composedPath ev))))
   \<and> focusTerminal (getExtensionWindowStateFromEvent d ev) =
       activeTerminal (getExtensionWindowStateFromEvent d ev)"
  by (simp add: getExtensionWindowStateFromEvent_def Let_def foldl_scanTarget_activeTerminal
      nullState_def)

theorem last_terminal_of_path_wins_witness:
  "filter (\<lambda>t. instanceofEtTerminal (exampleDom t)) (composedPath evViewer) = [14, 13]
   \<and> activeTerminal (getExtensionWindowStateFromEvent exampleDom evViewer) = Some 13
   \<and> focusTerminal (getExtensionWindowStateFromEvent exampleDom evViewer) = Some 13"
  using last_terminal_of_path_wins [of exampleDom evViewer]
  by (simp add: evViewer_def exampleDom_def plainElement_def)

text \<open>The claim as the specification states it fails: the path of the viewer event has
  two terminal-capable nodes, the first is 14, and the snapshot's terminal is 13.\<close>

theorem first_terminal_wins_counterexample:
  "length (filter (\<lambda>t. instanceofEtTerminal (exampleDom t)) (composedPath evViewer)) = 2
   \<and> hd (filter (\<lambda>t. instanceofEtTerminal (exampleDom t)) (composedPath evViewer)) = 14
   \<and> activeTerminal (getExtensionWindowStateFromEvent exampleDom evViewer) \<noteq> Some 14
   \<and> focusTerminal (getExtensionWindowStateFromEvent exampleDom evViewer) \<noteq> Some 14"
proof -
  have path: "filter (\<lambda>t. instanceofEtTerminal (exampleDom t)) (composedPath evViewer) = [14, 13]"
    by (simp add: evViewer_def exampleDom_def plainElement_def)
  have found: "activeTerminal (getExtensionWindowStateFromEvent exampleDom evViewer) = Some 13"
    "focusTerminal (getExtensionWindowStateFromEvent exampleDom evViewer) = Some 13"
    by (simp_all add: viewerState_eval viewerState_def)
  show ?thesis unfolding path found by simp
qed

section \<open>Properties of the when-variables\<close>

lemma whenVariables_terminal_normal:
  assumes "focusTerminal state = Some t" and "getMode (d t) \<noteq> CURSOR"
  shows "\<not> textEditorFocus (createWhenVariables d state)"
    and "\<not> isTextEditing (createWhenVariables d state)"
    and "terminalFocus (createWhenVariables d state)"
    and "isNormalMode (createWhenVariables d state)"
  using assms by (simp_all add: createWhenVariables_def Let_def split: option.splits)

lemma whenVariables_terminal_cursor:
  assumes "focusTerminal state = Some t" and "getMode (d t) = CURSOR"
    and "focusTextEditor state = Some e"
  shows "textEditorFocus (createWhenVariables d state)"
    and "isTextEditing (createWhenVariables d state) = getEditable (d e)"
  using assms by (simp_all add: createWhenVariables_def Let_def)

text \<open>
  Claim C7. With a focus terminal in normal (non-cursor) mode the when-variables
  \<open>textEditorFocus\<close> and \<open>isTextEditing\<close> are false, whether or not a focus text editor
  is present; with a focus terminal in cursor mode and a focus text editor,
  \<open>textEditorFocus\<close> is true and \<open>isTextEditing\<close> is what the editor's
  \<^verbatim>\<open>getEditable()\<close> reports.
\<close>

theorem when_variables_terminal_mode:
  "(focusTerminal state = Some t \<and> getMode (d t) \<noteq> CURSOR \<longrightarrow>
      \<not> textEditorFocus (createWhenVariables d state)
    \<and> \<not> isTextEditing (createWhenVariables d state))
   \<and> (focusTerminal state = Some t \<and> getMode (d t) = CURSOR
        \<and> focusTextEditor state = Some e \<longrightarrow>
      textEditorFocus (createWhenVariables d state)
    \<and> isTextEditing (createWhenVariables d state) = getEditable (d e))"
  using whenVariables_terminal_normal(1,2) [of state t d]
    whenVariables_terminal_cursor [of state t d e]
  by blast

theorem when_variables_terminal_mode_witness:
  "focusTerminal viewerState = Some 13 \<and> getMode (exampleDom 13) \<noteq> CURSOR
   \<and> focusTextEditor viewerState = Some 16
   \<and> \<not> textEditorFocus (createWhenVariables exampleDom viewerState)
   \<and> \<not> isTextEditing (createWhenVariables exampleDom viewerState)
   \<and> focusTerminal (viewerState\<lparr>focusTerminal := Some 14\<rparr>) = Some 14
   \<and> getMode (exampleDom 14) = CURSOR
   \<and> getEditable (exampleDom 16)
   \<and> textEditorFocus (createWhenVariables exampleDom (viewerState\<lparr>focusTerminal := Some 14\<rparr>))
   \<and> isTextEditing (createWhenVariables exampleDom (viewerState\<lparr>focusTerminal := Some 14\<rparr>))"
  using when_variables_terminal_mode [of viewerState 13 exampleDom 16]
    when_variables_terminal_mode [of "viewerState\<lparr>focusTerminal := Some 14\<rparr>" 14 exampleDom 16]
  by (simp add: viewerState_def exampleDom_def plainElement_def)

section \<open>Properties of start-up\<close>

lemma startExtension_active:
  "p_activeExtensions (startExtension h md m) =
     p_activeExtensions m @
       (if activationSucceeds h md
        then (case main md of
                None \<Rightarrow>
                  [\<lparr> metadata = md, contextImpl = newInternalExtensionContextImpl md,
                      publicApi = JNull, module = None \<rparr>]
              | Some mainFile \<Rightarrow>
                  (case require h (pathJoin h (path md) mainFile) of
                     Inl ex \<Rightarrow> []
                   | Inr mo \<Rightarrow>
                       (case activate mo (newInternalExtensionContextImpl md) of
                          Inl ex \<Rightarrow> []
                        | Inr r \<Rightarrow>
                            [\<lparr> metadata = md,
                                contextImpl =
                                  (newInternalExtensionContextImpl md)\<lparr>commands := snd r\<rparr>,
                                publicApi = fst r, module = Some mo \<rparr>])))
        else [])"
  by (simp add: startExtension_def activationSucceeds_def loadExtensionModule_def logInfo_def
      logWarn_def Let_def split: option.splits sum.splits prod.splits)

lemma startExtension_active_metadata:
  "map metadata (p_activeExtensions (startExtension h md m)) =
     map metadata (p_activeExtensions m) @ (if activationSucceeds h md then [md] else [])"
  by (simp add: startExtension_active activationSucceeds_def split: option.splits sum.splits)

lemma startExtension_warnings:
  "filter isWarn (p_log (startExtension h md m)) =
     filter isWarn (p_log m) @
       (if activationSucceeds h md then []
        else (case main md of
                None \<Rightarrow> []
              | Some mainFile \<Rightarrow>
                  (case require h (pathJoin h (path md) mainFile) of
                     Inl ex \<Rightarrow>
                       [Warn [''Unable to load '' @ pathJoin h (path md) mainFile @ ''. '' @ ex]]
                   | Inr mo \<Rightarrow>
                       (case activate mo (newInternalExtensionContextImpl md) of
                          Inl ex \<Rightarrow>
                            [Warn [''Exception occurred while starting extensions '' @ name md
                                   @ ''. '' @ ex]]
                        | Inr r \<Rightarrow> []))))"
  by (simp add: startExtension_def activationSucceeds_def loadExtensionModule_def logInfo_def
      logWarn_def Let_def split: option.splits sum.splits prod.splits)

lemma startExtension_warning_count:
  "length (filter isWarn (p_log (startExtension h md m))) =
     length (filter isWarn (p_log m)) + (if activationSucceeds h md then 0 else 1)"
  by (simp add: startExtension_warnings activationSucceeds_def split: option.splits sum.splits)

lemma startUp_loop_active:
  "map metadata (p_activeExtensions
     (foldl (\<lambda>acc extensionInfo.
               if \<not> isMainProcessExtension h extensionInfo
                  \<and> isSupportedOnThisPlatform h extensionInfo
               then startExtension h extensionInfo acc else acc) m mds)) =
   map metadata (p_activeExtensions m)
     @ filter (\<lambda>md. startedHere h md \<and> activationSucceeds h md) mds"
  by (induction mds arbitrary: m) (simp_all add: startExtension_active_metadata startedHere_def)

lemma startUp_loop_warnings:
  "length (filter isWarn (p_log
     (foldl (\<lambda>acc extensionInfo.
               if \<not> isMainProcessExtension h extensionInfo
                  \<and> isSupportedOnThisPlatform h extensionInfo
               then startExtension h extensionInfo acc else acc) m mds))) =
   length (filter isWarn (p_log m))
     + length (filter (\<lambda>md. startedHere h md \<and> \<not> activationSucceeds h md) mds)"
  by (induction mds arbitrary: m) (simp_all add: startExtension_warning_count startedHere_def)

text \<open>
  Claim C8. \<^verbatim>\<open>startUp\<close> always returns. Of the discovered descriptors that it starts,
  those whose module does not load or whose \<^verbatim>\<open>activate\<close> throws are not in the active
  list and each leaves one warning in the log; every other one is appended, failures
  before it or not, so the active list grows by the successfully activated extensions in
  the order of discovery.
\<close>

theorem startUp_isolates_failures:
  "map metadata (p_activeExtensions (startUp h m)) =
     map metadata (p_activeExtensions m)
       @ filter (\<lambda>md. startedHere h md \<and> activationSucceeds h md)
           (requestExtensionMetadataSync h)
   \<and> length (filter isWarn (p_log (startUp h m))) =
       length (filter isWarn (p_log m))
         + length (filter (\<lambda>md. startedHere h md \<and> \<not> activationSucceeds h md)
             (requestExtensionMetadataSync h))"
  by (simp add: startUp_def Let_def startUp_loop_active startUp_loop_warnings)

lemma example_activation:
  "activationSucceeds exampleHost extInternal"
  "\<not> activationSucceeds exampleHost extUnloadable"
  "\<not> activationSucceeds exampleHost extThrowing"
  "activationSucceeds exampleHost extTools"
  by (simp_all add: activationSucceeds_def exampleHost_def extInternal_def extUnloadable_def
      extThrowing_def extTools_def throwingModule_def toolsModule_def)

lemma example_startedHere:
  "startedHere exampleHost extInternal"
  "startedHere exampleHost extUnloadable"
  "startedHere exampleHost extThrowing"
  "startedHere exampleHost extTools"
  "\<not> startedHere exampleHost extMainOnly"
  by (simp_all add: startedHere_def exampleHost_def extInternal_def extUnloadable_def
      extThrowing_def extTools_def extMainOnly_def)

lemma example_discovered:
  "requestExtensionMetadataSync exampleHost =
     [extInternal, extUnloadable, extThrowing, extTools, extMainOnly]"
  by (simp add: exampleHost_def)

theorem startUp_isolates_failures_witness:
  "map metadata (p_activeExtensions (startUp exampleHost initialManager))
     = [extInternal, extTools]
   \<and> length (filter isWarn (p_log (startUp exampleHost initialManager))) = 2"
  using startUp_isolates_failures [of exampleHost initialManager]
  by (simp add: example_discovered example_activation example_startedHere initialManager_def)

section \<open>Properties of the command query\<close>

lemma sortCompareFunc_le: "(sortCompareFunc a b \<le> 0) = (sortKey a \<le> sortKey b)"
  by (auto simp add: sortCompareFunc_def sortKey_def Let_def)

lemma insertSorted_insort_key:
  "insertSorted sortCompareFunc x xs = insort_key sortKey x xs"
  by (induction xs) (simp_all add: sortCompareFunc_le)

lemma arraySort_sort_key: "arraySort sortCompareFunc xs = sort_key sortKey xs"
  by (induction xs) (simp_all add: arraySort_def sort_key_def insertSorted_insort_key)

lemma sortKey_le_iff:
  "(sortKey a \<le> sortKey b) =
     (indexOf allCategories (category a) < indexOf allCategories (category b)
      \<or> indexOf allCategories (category a) = indexOf allCategories (category b)
        \<and> (order a < order b \<or> order a = order b \<and> title a \<le> title b))"
  by (auto simp add: sortKey_def)

lemma query_is_sort_key:
  "queryCommandsWithExtensionWindowState h d options st m =
     sort_key sortKey (collectEntries h d options st m)"
  by (simp add: queryCommandsWithExtensionWindowState_def sortCommandsInPlace_def
      arraySort_sort_key)

lemma query_sorted_by_key:
  "sorted (map sortKey (queryCommandsWithExtensionWindowState h d options st m))"
  by (simp add: query_is_sort_key)

text \<open>
  Claim C5. The list that \<^verbatim>\<open>queryCommandsWithExtensionWindowState\<close> returns (and so
  \<^verbatim>\<open>queryCommands\<close>, which calls it on the canonical state) is ascending in the position
  of the category in \<open>allCategories\<close>, then in the order, then in the title; and the
  entries of any one key stand in the order in which the loops over the active
  extensions and their contributions collected them.
\<close>

theorem query_sorted_and_stable:
  "sorted_wrt
     (\<lambda>a b. indexOf allCategories (category a) < indexOf allCategories (category b)
            \<or> indexOf allCategories (category a) = indexOf allCategories (category b)
              \<and> (order a < order b \<or> order a = order b \<and> title a \<le> title b))
     (queryCommandsWithExtensionWindowState h d options st m)
   \<and> (\<forall>k. filter (\<lambda>c. sortKey c = k)
              (queryCommandsWithExtensionWindowState h d options st m)
            = filter (\<lambda>c. sortKey c = k) (collectEntries h d options st m))
   \<and> queryCommands h d options m =
       queryCommandsWithExtensionWindowState h d options (p_commonExtensionWindowState m) m"
proof (intro conjI allI)
  have "sorted_wrt (\<lambda>a b. sortKey a \<le> sortKey b)
          (queryCommandsWithExtensionWindowState h d options st m)"
    using query_sorted_by_key [of h d options st m] by (simp add: sorted_map)
  then show "sorted_wrt
     (\<lambda>a b. indexOf allCategories (category a) < indexOf allCategories (category b)
            \<or> indexOf allCategories (category a) = indexOf allCategories (category b)
              \<and> (order a < order b \<or> order a = order b \<and> title a \<le> title b))
     (queryCommandsWithExtensionWindowState h d options st m)"
    by (simp add: sortKey_le_iff)
next
  fix k
  show "filter (\<lambda>c. sortKey c = k)
              (queryCommandsWithExtensionWindowState h d options st m)
            = filter (\<lambda>c. sortKey c = k) (collectEntries h d options st m)"
    by (simp add: query_is_sort_key sort_key_stable)
next
  show "queryCommands h d options m =
       queryCommandsWithExtensionWindowState h d options (p_commonExtensionWindowState m) m"
    by (simp add: queryCommands_def)
qed

lemma example_query:
  "map command (queryCommands exampleHost exampleDom noOptions exampleManager) =
     [''extraterm:custom.thing'', ''tools:first'', ''extraterm:window.closeTab'',
      ''tools:twin'', ''extraterm:window.newTab'', ''tools:hello'']"
  by code_simp

theorem query_sorted_and_stable_witness:
  "map command (queryCommands exampleHost exampleDom noOptions exampleManager) =
     [''extraterm:custom.thing'', ''tools:first'', ''extraterm:window.closeTab'',
      ''tools:twin'', ''extraterm:window.newTab'', ''tools:hello'']
   \<and> map command (filter (\<lambda>c. sortKey c = (4, 10, ''Close Tab''))
        (queryCommandsWithExtensionWindowState exampleHost exampleDom noOptions
           (p_commonExtensionWindowState exampleManager) exampleManager))
      = map command (filter (\<lambda>c. sortKey c = (4, 10, ''Close Tab''))
        (collectEntries exampleHost exampleDom noOptions
           (p_commonExtensionWindowState exampleManager) exampleManager))"
proof -
  note sorted_stable = query_sorted_and_stable [of exampleHost exampleDom noOptions
      "p_commonExtensionWindowState exampleManager" exampleManager]
  have stable: "filter (\<lambda>c. sortKey c = (4, 10, ''Close Tab''))
        (queryCommandsWithExtensionWindowState exampleHost exampleDom noOptions
           (p_commonExtensionWindowState exampleManager) exampleManager)
      = filter (\<lambda>c. sortKey c = (4, 10, ''Close Tab''))
        (collectEntries exampleHost exampleDom noOptions
           (p_commonExtensionWindowState exampleManager) exampleManager)"
    using sorted_stable by blast
  show ?thesis
    unfolding stable by (simp add: example_query)
qed

lemma indexOf_lower: "- 1 \<le> indexOf xs x"
  by (induction xs) (simp_all add: Let_def)

lemma indexOf_absent: "(indexOf xs x = - 1) = (x \<notin> set xs)"
proof (induction xs)
  case Nil
  show ?case by simp
next
  case (Cons y ys)
  have "- 1 \<le> indexOf ys x" by (rule indexOf_lower)
  then show ?case using Cons by (auto simp add: Let_def)
qed

lemma sorted_partition:
  assumes "sorted (map f xs)" and "\<And>a b. P a \<Longrightarrow> \<not> P b \<Longrightarrow> f a < f b"
  shows "xs = filter P xs @ filter (\<lambda>x. \<not> P x) xs"
  using assms(1)
proof (induction xs)
  case Nil
  show ?case by simp
next
  case (Cons x xs)
  then have ih: "xs = filter P xs @ filter (\<lambda>x. \<not> P x) xs"
    and le: "\<forall>y \<in> set xs. f x \<le> f y"
    by simp_all
  show ?case
  proof (cases "P x")
    case True
    then show ?thesis using ih by simp
  next
    case False
    have "\<not> P y" if "y \<in> set xs" for y
    proof
      assume "P y"
      then have "f y < f x" using False assms(2) by blast
      moreover have "f x \<le> f y" using le that by blast
      ultimately show False by simp
    qed
    then have none: "filter P xs = []" by (simp add: filter_empty_conv)
    then have "xs = filter (\<lambda>x. \<not> P x) xs" using ih by simp
    then show ?thesis using False none by simp
  qed
qed

text \<open>
  Claim C9, as the code has it. A category that is not in \<open>allCategories\<close> has the
  position -1 of \<^verbatim>\<open>indexOf\<close>, below every position of the enumeration: in the list that
  a query returns, the commands of an unknown category stand first, before every command
  whose category is in the enumeration.
\<close>

theorem unknown_categories_sort_first:
  "queryCommandsWithExtensionWindowState h d options st m =
     filter (\<lambda>c. category c \<notin> set allCategories)
       (queryCommandsWithExtensionWindowState h d options st m)
     @ filter (\<lambda>c. category c \<in> set allCategories)
         (queryCommandsWithExtensionWindowState h d options st m)"
proof -
  have key: "sortKey a < sortKey b"
    if "category a \<notin> set allCategories" and "\<not> category b \<notin> set allCategories" for a b
  proof -
    have "indexOf allCategories (category a) = - 1"
      using that(1) by (simp add: indexOf_absent)
    moreover have "indexOf allCategories (category b) \<noteq> - 1"
      using that(2) by (simp add: indexOf_absent)
    moreover have "- 1 \<le> indexOf allCategories (category b)"
      by (rule indexOf_lower)
    ultimately show ?thesis by (simp add: sortKey_def)
  qed
  show ?thesis
    using sorted_partition [of sortKey
        "queryCommandsWithExtensionWindowState h d options st m"
        "\<lambda>c. category c \<notin> set allCategories", OF query_sorted_by_key key]
    by simp
qed

theorem unknown_categories_sort_first_witness:
  "map category (filter (\<lambda>c. category c \<notin> set allCategories)
       (queryCommandsWithExtensionWindowState exampleHost exampleDom noOptions
          (p_commonExtensionWindowState exampleManager) exampleManager)) = [''custom'']
   \<and> map category (queryCommandsWithExtensionWindowState exampleHost exampleDom noOptions
          (p_commonExtensionWindowState exampleManager) exampleManager)
      = ''custom'' # map category (filter (\<lambda>c. category c \<in> set allCategories)
          (queryCommandsWithExtensionWindowState exampleHost exampleDom noOptions
             (p_commonExtensionWindowState exampleManager) exampleManager))"
proof -
  have unknown: "map category (filter (\<lambda>c. category c \<notin> set allCategories)
       (queryCommandsWithExtensionWindowState exampleHost exampleDom noOptions
          (p_commonExtensionWindowState exampleManager) exampleManager)) = [''custom'']"
    by code_simp
  have "map category (queryCommandsWithExtensionWindowState exampleHost exampleDom noOptions
          (p_commonExtensionWindowState exampleManager) exampleManager)
      = map category (filter (\<lambda>c. category c \<notin> set allCategories)
       (queryCommandsWithExtensionWindowState exampleHost exampleDom noOptions
          (p_commonExtensionWindowState exampleManager) exampleManager))
       @ map category (filter (\<lambda>c. category c \<in> set allCategories)
          (queryCommandsWithExtensionWindowState exampleHost exampleDom noOptions
             (p_commonExtensionWindowState exampleManager) exampleManager))"
    using unknown_categories_sort_first [of exampleHost exampleDom noOptions
        "p_commonExtensionWindowState exampleManager" exampleManager]
    by (metis map_append)
  then show ?thesis using unknown by simp
qed

text \<open>The claim as the specification states it fails: of the six commands of the example
  all qualify, the one of the unknown category \<open>custom\<close> is the first of the result and
  the commands of the enumeration's categories follow it.\<close>

theorem unknown_categories_sort_last_counterexample:
  "length (queryCommands exampleHost exampleDom noOptions exampleManager) = 6
   \<and> category (queryCommands exampleHost exampleDom noOptions exampleManager ! 0)
       \<notin> set allCategories
   \<and> category (queryCommands exampleHost exampleDom noOptions exampleManager ! 1)
       \<in> set allCategories
   \<and> category (queryCommands exampleHost exampleDom noOptions exampleManager ! 5)
       \<in> set allCategories"
  by code_simp

section \<open>Properties of command execution\<close>

lemma executeCommand_malformed:
  "length (split (commandNamePart cmd) (CHR '':'')) \<noteq> 2 \<Longrightarrow>
   executeCommand h cmd args m =
     (Inr JNull,
      logWarn [''Command '' @ quoted cmd
               @ '' does have the right form. (Wrong numer of colons.)''] m)"
  by (simp add: executeCommand_def Let_def)

lemma executeCommand_wellformed:
  "length (split (commandNamePart cmd) (CHR '':'')) = 2 \<Longrightarrow>
   executeCommand h cmd args m =
     (case resolveArgs h args (argsStringPart cmd) of
        Inl ex \<Rightarrow> (Inl ex, m)
      | Inr args1 \<Rightarrow>
          (case find (\<lambda>ext. name (metadata ext)
                             = resolveExtensionName (split (commandNamePart cmd) (CHR '':'')))
                     (p_activeExtensions m) of
             Some ext \<Rightarrow>
               (case getCommandFunction (commands (contextImpl ext)) (commandNamePart cmd) of
                  None \<Rightarrow>
                    (Inr JNull,
                     logWarn [''Unable to find command '' @ quoted (commandNamePart cmd)
                              @ '' in extension ''
                              @ quoted (resolveExtensionName
                                         (split (commandNamePart cmd) (CHR '':''))) @ ''.''] m)
                | Some commandFunc \<Rightarrow>
                    runCommandFunc (commandNamePart cmd) commandFunc args1 m)
           | None \<Rightarrow>
               (Inr JNull,
                logWarn [''Unable to find extension with name ''
                         @ quoted (resolveExtensionName
                                    (split (commandNamePart cmd) (CHR '':'')))
                         @ '' for command '' @ quoted (commandNamePart cmd) @ ''.''] m)))"
  by (simp add: executeCommand_def Let_def)

lemma runCommandFunc_returns: "\<exists>v. fst (runCommandFunc nm f a m) = Inr v"
  by (simp add: runCommandFunc_def split: prod.splits sum.splits)

lemma executeCommand_throws_only_on_args:
  "fst (executeCommand h cmd args m) = Inl ex \<Longrightarrow>
   resolveArgs h args (argsStringPart cmd) = Inl ex
   \<and> snd (executeCommand h cmd args m) = m"
proof (cases "length (split (commandNamePart cmd) (CHR '':'')) = 2")
  case False
  assume "fst (executeCommand h cmd args m) = Inl ex"
  then show ?thesis using False by (simp add: executeCommand_malformed)
next
  case True
  assume thrown: "fst (executeCommand h cmd args m) = Inl ex"
  show ?thesis
  proof (cases "resolveArgs h args (argsStringPart cmd)")
    case (Inl e)
    then show ?thesis using thrown True by (simp add: executeCommand_wellformed)
  next
    case (Inr a)
    have "\<exists>v. fst (runCommandFunc (commandNamePart cmd) f a m) = Inr v" for f
      by (rule runCommandFunc_returns)
    then have "\<exists>v. fst (executeCommand h cmd args m) = Inr v"
      using True Inr
      by (simp add: executeCommand_wellformed split: option.splits)
    then show ?thesis using thrown by simp
  qed
qed

lemma set_as_update:
  "setExtensionWindowState s m = m\<lparr>p_commonExtensionWindowState := s\<rparr>"
proof -
  have "(p_commonExtensionWindowState m)
           \<lparr> activeTabContent := activeTabContent s,
             activeTerminal := activeTerminal s,
             focusTerminal := focusTerminal s,
             activeTextEditor := activeTextEditor s,
             focusTextEditor := focusTextEditor s,
             activeTabsWidget := activeTabsWidget s,
             activeViewerElement := activeViewerElement s,
             focusViewerElement := focusViewerElement s,
             isInputFieldFocus := isInputFieldFocus s \<rparr> = s"
    by (cases s, cases "p_commonExtensionWindowState m") simp
  then show ?thesis by (simp add: setExtensionWindowState_def)
qed

lemma withState_unfold:
  "executeCommandWithExtensionWindowState h tempState cmd args m =
     (case executeCommand h cmd args (m\<lparr>p_commonExtensionWindowState := tempState\<rparr>) of
        (Inl ex, m2) \<Rightarrow> (Inl ex, m2)
      | (Inr result, m2) \<Rightarrow>
          (Inr result, m2\<lparr>p_commonExtensionWindowState := p_commonExtensionWindowState m\<rparr>))"
  by (simp add: executeCommandWithExtensionWindowState_def Let_def set_as_update
      copyExtensionWindowState_def split: prod.splits sum.splits)

lemma withState_restores:
  "fst (executeCommandWithExtensionWindowState h tempState cmd args m) = Inr r \<Longrightarrow>
   p_commonExtensionWindowState (snd (executeCommandWithExtensionWindowState h tempState cmd args m))
     = p_commonExtensionWindowState m"
  by (cases "executeCommand h cmd args (m\<lparr>p_commonExtensionWindowState := tempState\<rparr>)")
    (auto simp add: withState_unfold split: sum.splits)

lemma withState_throws:
  assumes "fst (executeCommandWithExtensionWindowState h tempState cmd args m) = Inl ex"
  shows "resolveArgs h args (argsStringPart cmd) = Inl ex"
    and "p_commonExtensionWindowState
           (snd (executeCommandWithExtensionWindowState h tempState cmd args m)) = tempState"
proof -
  let ?m1 = "m\<lparr>p_commonExtensionWindowState := tempState\<rparr>"
  have thrown: "fst (executeCommand h cmd args ?m1) = Inl ex"
    using assms
    by (cases "executeCommand h cmd args ?m1") (auto simp add: withState_unfold split: sum.splits)
  note inner = executeCommand_throws_only_on_args [OF thrown]
  show "resolveArgs h args (argsStringPart cmd) = Inl ex"
    using inner by simp
  have "snd (executeCommandWithExtensionWindowState h tempState cmd args m)
          = snd (executeCommand h cmd args ?m1)"
    using thrown
    by (cases "executeCommand h cmd args ?m1") (auto simp add: withState_unfold split: sum.splits)
  then show "p_commonExtensionWindowState
           (snd (executeCommandWithExtensionWindowState h tempState cmd args m)) = tempState"
    using inner by simp
qed

lemma withState_runs_on_tempState:
  assumes "length (split (commandNamePart cmd) (CHR '':'')) = 2"
    and "resolveArgs h args (argsStringPart cmd) = Inr a"
    and "find (\<lambda>ext. name (metadata ext)
                       = resolveExtensionName (split (commandNamePart cmd) (CHR '':'')))
              (p_activeExtensions m) = Some ext"
    and "getCommandFunction (commands (contextImpl ext)) (commandNamePart cmd) = Some f"
  shows "executeCommandWithExtensionWindowState h tempState cmd args m =
           (case f a tempState of
              (Inr v, w) \<Rightarrow> (Inr v, m)
            | (Inl ex, w) \<Rightarrow>
                (Inr JNull,
                 logWarn [''Command '' @ quoted (commandNamePart cmd)
                          @ '' threw an exception.'', ex] m))"
  using assms
  by (simp add: withState_unfold executeCommand_wellformed runCommandFunc_def logWarn_def
      split: prod.splits sum.splits)

text \<open>
  Claim C3. Whenever \<^verbatim>\<open>executeCommandWithExtensionWindowState\<close> returns, the canonical
  window state is the one from before the call, whatever the command function did to it
  and whether it returned or threw; the command function runs on the temporary state. The
  call does not return only when decoding the arguments of the command string throws
  (then the temporary state stays).
\<close>

theorem temporary_state_is_restored:
  "(\<forall>r. fst (executeCommandWithExtensionWindowState h tempState cmd args m) = Inr r \<longrightarrow>
        p_commonExtensionWindowState
          (snd (executeCommandWithExtensionWindowState h tempState cmd args m))
        = p_commonExtensionWindowState m)
   \<and> (\<forall>ex. fst (executeCommandWithExtensionWindowState h tempState cmd args m) = Inl ex \<longrightarrow>
        resolveArgs h args (argsStringPart cmd) = Inl ex
        \<and> p_commonExtensionWindowState
            (snd (executeCommandWithExtensionWindowState h tempState cmd args m)) = tempState)
   \<and> (length (split (commandNamePart cmd) (CHR '':'')) = 2
       \<and> resolveArgs h args (argsStringPart cmd) = Inr a
       \<and> find (\<lambda>ext. name (metadata ext)
                       = resolveExtensionName (split (commandNamePart cmd) (CHR '':'')))
              (p_activeExtensions m) = Some ext
       \<and> getCommandFunction (commands (contextImpl ext)) (commandNamePart cmd) = Some f \<longrightarrow>
       executeCommandWithExtensionWindowState h tempState cmd args m =
         (case f a tempState of
            (Inr v, w) \<Rightarrow> (Inr v, m)
          | (Inl ex, w) \<Rightarrow>
              (Inr JNull,
               logWarn [''Command '' @ quoted (commandNamePart cmd)
                        @ '' threw an exception.'', ex] m)))"
  using withState_restores [of h tempState cmd args m]
    withState_throws [of h tempState cmd args m]
    withState_runs_on_tempState [of cmd h args a m ext f tempState]
  by blast

lemma exampleManager_state: "p_commonExtensionWindowState exampleManager = nullState"
  by code_simp

theorem temporary_state_is_restored_witness:
  "activeTerminal (p_commonExtensionWindowState exampleManager) = None
   \<and> activeTerminal viewerState = Some 13
   \<and> fst (executeCommandWithExtensionWindowState exampleHost viewerState ''tools:probe''
            JUndefined exampleManager) = Inr (JNumber 13)
   \<and> p_commonExtensionWindowState
        (snd (executeCommandWithExtensionWindowState exampleHost viewerState ''tools:probe''
                JUndefined exampleManager)) = nullState
   \<and> fst (executeCommandWithExtensionWindowState exampleHost viewerState ''tools:boom''
            JUndefined exampleManager) = Inr JNull
   \<and> p_commonExtensionWindowState
        (snd (executeCommandWithExtensionWindowState exampleHost viewerState ''tools:boom''
                JUndefined exampleManager)) = nullState"
proof -
  have probe: "fst (executeCommandWithExtensionWindowState exampleHost viewerState ''tools:probe''
            JUndefined exampleManager) = Inr (JNumber 13)"
    by code_simp
  have boom: "fst (executeCommandWithExtensionWindowState exampleHost viewerState ''tools:boom''
            JUndefined exampleManager) = Inr JNull"
    by code_simp
  have probe_restored: "p_commonExtensionWindowState
        (snd (executeCommandWithExtensionWindowState exampleHost viewerState ''tools:probe''
                JUndefined exampleManager)) = p_commonExtensionWindowState exampleManager"
    using probe
      temporary_state_is_restored [where h = exampleHost and tempState = viewerState
        and cmd = "''tools:probe''" and args = JUndefined and m = exampleManager]
    by blast
  have boom_restored: "p_commonExtensionWindowState
        (snd (executeCommandWithExtensionWindowState exampleHost viewerState ''tools:boom''
                JUndefined exampleManager)) = p_commonExtensionWindowState exampleManager"
    using boom
      temporary_state_is_restored [where h = exampleHost and tempState = viewerState
        and cmd = "''tools:boom''" and args = JUndefined and m = exampleManager]
    by blast
  show ?thesis
    using probe boom probe_restored boom_restored
    by (simp add: exampleManager_state nullState_def viewerState_def)
qed

lemma resolveArgs_explicit: "args \<noteq> JUndefined \<Longrightarrow> resolveArgs h args s = Inr args"
  by (simp add: resolveArgs_def)

lemma resolveArgs_no_query: "resolveArgs h JUndefined None = Inr (JObject [])"
  by (simp add: resolveArgs_def)

lemma executeCommand_unknown_extension:
  assumes "length (split (commandNamePart cmd) (CHR '':'')) = 2"
    and "resolveArgs h args (argsStringPart cmd) = Inr a"
    and "find (\<lambda>ext. name (metadata ext)
                       = resolveExtensionName (split (commandNamePart cmd) (CHR '':'')))
              (p_activeExtensions m) = None"
  shows "executeCommand h cmd args m =
           (Inr JNull,
            logWarn [''Unable to find extension with name ''
                     @ quoted (resolveExtensionName (split (commandNamePart cmd) (CHR '':'')))
                     @ '' for command '' @ quoted (commandNamePart cmd) @ ''.''] m)"
  using assms by (simp add: executeCommand_wellformed)

lemma executeCommand_unknown_command:
  assumes "length (split (commandNamePart cmd) (CHR '':'')) = 2"
    and "resolveArgs h args (argsStringPart cmd) = Inr a"
    and "find (\<lambda>ext. name (metadata ext)
                       = resolveExtensionName (split (commandNamePart cmd) (CHR '':'')))
              (p_activeExtensions m) = Some ext"
    and "getCommandFunction (commands (contextImpl ext)) (commandNamePart cmd) = None"
  shows "executeCommand h cmd args m =
           (Inr JNull,
            logWarn [''Unable to find command '' @ quoted (commandNamePart cmd)
                     @ '' in extension ''
                     @ quoted (resolveExtensionName (split (commandNamePart cmd) (CHR '':'')))
                     @ ''.''] m)"
  using assms by (simp add: executeCommand_wellformed)

lemma executeCommand_handler_throws:
  assumes "length (split (commandNamePart cmd) (CHR '':'')) = 2"
    and "resolveArgs h args (argsStringPart cmd) = Inr a"
    and "find (\<lambda>ext. name (metadata ext)
                       = resolveExtensionName (split (commandNamePart cmd) (CHR '':'')))
              (p_activeExtensions m) = Some ext"
    and "getCommandFunction (commands (contextImpl ext)) (commandNamePart cmd) = Some f"
    and "f a (p_commonExtensionWindowState m) = (Inl ex, w)"
  shows "executeCommand h cmd args m =
           (Inr JNull,
            logWarn [''Command '' @ quoted (commandNamePart cmd) @ '' threw an exception.'', ex]
              (m\<lparr>p_commonExtensionWindowState := w\<rparr>))"
  using assms by (simp add: executeCommand_wellformed runCommandFunc_def)

text \<open>
  Claim C4, as the code has it. \<^verbatim>\<open>executeCommand\<close> logs a warning and returns null, and
  throws nothing, when the name portion of the command string does not hold exactly one
  colon; and, provided the arguments are there without a throw (they were passed, or the
  string has no query portion, or the query portion decodes), when no active extension
  has the alias-resolved name, when the extension has no function for the command, and
  when the command function throws.
\<close>

theorem executeCommand_failures_give_null:
  "(length (split (commandNamePart cmd) (CHR '':'')) \<noteq> 2 \<longrightarrow>
      executeCommand h cmd args m =
        (Inr JNull,
         logWarn [''Command '' @ quoted cmd
                  @ '' does have the right form. (Wrong numer of colons.)''] m))
   \<and> (length (split (commandNamePart cmd) (CHR '':'')) = 2
       \<and> resolveArgs h args (argsStringPart cmd) = Inr a \<longrightarrow>
       (find (\<lambda>ext. name (metadata ext)
                      = resolveExtensionName (split (commandNamePart cmd) (CHR '':'')))
             (p_activeExtensions m) = None \<longrightarrow>
          executeCommand h cmd args m =
            (Inr JNull,
             logWarn [''Unable to find extension with name ''
                      @ quoted (resolveExtensionName (split (commandNamePart cmd) (CHR '':'')))
                      @ '' for command '' @ quoted (commandNamePart cmd) @ ''.''] m))
     \<and> (find (\<lambda>ext. name (metadata ext)
                      = resolveExtensionName (split (commandNamePart cmd) (CHR '':'')))
             (p_activeExtensions m) = Some ext
         \<and> getCommandFunction (commands (contextImpl ext)) (commandNamePart cmd) = None \<longrightarrow>
          executeCommand h cmd args m =
            (Inr JNull,
             logWarn [''Unable to find command '' @ quoted (commandNamePart cmd)
                      @ '' in extension ''
                      @ quoted (resolveExtensionName (split (commandNamePart cmd) (CHR '':'')))
                      @ ''.''] m))
     \<and> (find (\<lambda>ext. name (metadata ext)
                      = resolveExtensionName (split (commandNamePart cmd) (CHR '':'')))
             (p_activeExtensions m) = Some ext
         \<and> getCommandFunction (commands (contextImpl ext)) (commandNamePart cmd) = Some f
         \<and> f a (p_commonExtensionWindowState m) = (Inl ex, w) \<longrightarrow>
          executeCommand h cmd args m =
            (Inr JNull,
             logWarn [''Command '' @ quoted (commandNamePart cmd)
                      @ '' threw an exception.'', ex]
               (m\<lparr>p_commonExtensionWindowState := w\<rparr>))))
   \<and> (args \<noteq> JUndefined \<longrightarrow> resolveArgs h args (argsStringPart cmd) = Inr args)
   \<and> (args = JUndefined \<and> argsStringPart cmd = None \<longrightarrow>
        resolveArgs h args (argsStringPart cmd) = Inr (JObject []))"
proof (intro conjI impI)
  assume "length (split (commandNamePart cmd) (CHR '':'')) \<noteq> 2"
  then show "executeCommand h cmd args m =
        (Inr JNull,
         logWarn [''Command '' @ quoted cmd
                  @ '' does have the right form. (Wrong numer of colons.)''] m)"
    by (rule executeCommand_malformed)
next
  assume "length (split (commandNamePart cmd) (CHR '':'')) = 2
       \<and> resolveArgs h args (argsStringPart cmd) = Inr a"
    and "find (\<lambda>ext. name (metadata ext)
                      = resolveExtensionName (split (commandNamePart cmd) (CHR '':'')))
             (p_activeExtensions m) = None"
  then show "executeCommand h cmd args m =
            (Inr JNull,
             logWarn [''Unable to find extension with name ''
                      @ quoted (resolveExtensionName (split (commandNamePart cmd) (CHR '':'')))
                      @ '' for command '' @ quoted (commandNamePart cmd) @ ''.''] m)"
    using executeCommand_unknown_extension [of cmd h args a m] by blast
next
  assume "length (split (commandNamePart cmd) (CHR '':'')) = 2
       \<and> resolveArgs h args (argsStringPart cmd) = Inr a"
    and "find (\<lambda>ext. name (metadata ext)
                      = resolveExtensionName (split (commandNamePart cmd) (CHR '':'')))
             (p_activeExtensions m) = Some ext
         \<and> getCommandFunction (commands (contextImpl ext)) (commandNamePart cmd) = None"
  then show "executeCommand h cmd args m =
            (Inr JNull,
             logWarn [''Unable to find command '' @ quoted (commandNamePart cmd)
                      @ '' in extension ''
                      @ quoted (resolveExtensionName (split (commandNamePart cmd) (CHR '':'')))
                      @ ''.''] m)"
    using executeCommand_unknown_command [of cmd h args a m ext] by blast
next
  assume "length (split (commandNamePart cmd) (CHR '':'')) = 2
       \<and> resolveArgs h args (argsStringPart cmd) = Inr a"
    and "find (\<lambda>ext. name (metadata ext)
                      = resolveExtensionName (split (commandNamePart cmd) (CHR '':'')))
             (p_activeExtensions m) = Some ext
         \<and> getCommandFunction (commands (contextImpl ext)) (commandNamePart cmd) = Some f
         \<and> f a (p_commonExtensionWindowState m) = (Inl ex, w)"
  then show "executeCommand h cmd args m =
            (Inr JNull,
             logWarn [''Command '' @ quoted (commandNamePart cmd)
                      @ '' threw an exception.'', ex]
               (m\<lparr>p_commonExtensionWindowState := w\<rparr>))"
    using executeCommand_handler_throws [of cmd h args a m ext f ex w] by blast
next
  assume "args \<noteq> JUndefined"
  then show "resolveArgs h args (argsStringPart cmd) = Inr args"
    by (rule resolveArgs_explicit)
next
  assume "args = JUndefined \<and> argsStringPart cmd = None"
  then show "resolveArgs h args (argsStringPart cmd) = Inr (JObject [])"
    by (simp add: resolveArgs_no_query)
qed

theorem executeCommand_failures_give_null_witness:
  "fst (executeCommand exampleHost ''bad-command-no-colon'' JUndefined exampleManager) = Inr JNull
   \<and> length (filter isWarn (p_log exampleManager)) = 2
   \<and> length (filter isWarn
        (p_log (snd (executeCommand exampleHost ''bad-command-no-colon'' JUndefined
                       exampleManager)))) = 3
   \<and> fst (executeCommand exampleHost ''nobody:cmd'' JUndefined exampleManager) = Inr JNull
   \<and> fst (executeCommand exampleHost ''extraterm:window.newTab'' JNull exampleManager)
       = Inr JNull
   \<and> fst (executeCommand exampleHost ''tools:boom?{}'' JUndefined exampleManager) = Inr JNull"
proof -
  have warned: "length (filter isWarn (p_log exampleManager)) = 2"
    by code_simp
  have colons: "length (split (commandNamePart ''bad-command-no-colon'') (CHR '':'')) \<noteq> 2"
    by code_simp
  have malformed:
    "executeCommand exampleHost ''bad-command-no-colon'' JUndefined exampleManager =
       (Inr JNull,
        logWarn [''Command '' @ quoted ''bad-command-no-colon''
                 @ '' does have the right form. (Wrong numer of colons.)''] exampleManager)"
    using colons
      executeCommand_failures_give_null [where cmd = "''bad-command-no-colon''"
        and h = exampleHost and args = JUndefined and m = exampleManager]
    by blast
  have nobody_parts: "length (split (commandNamePart ''nobody:cmd'') (CHR '':'')) = 2"
    by code_simp
  have nobody_args: "resolveArgs exampleHost JUndefined (argsStringPart ''nobody:cmd'')
                       = Inr (JObject [])"
    by code_simp
  have nobody_find:
    "find (\<lambda>ext. name (metadata ext)
                    = resolveExtensionName (split (commandNamePart ''nobody:cmd'') (CHR '':'')))
          (p_activeExtensions exampleManager) = None"
    by code_simp
  have nobody:
    "fst (executeCommand exampleHost ''nobody:cmd'' JUndefined exampleManager) = Inr JNull"
    using nobody_parts nobody_args nobody_find
      executeCommand_failures_give_null [where cmd = "''nobody:cmd''"
        and h = exampleHost and args = JUndefined and m = exampleManager
        and a = "JObject []"]
    by simp
  have rest:
    "fst (executeCommand exampleHost ''extraterm:window.newTab'' JNull exampleManager)
       = Inr JNull"
    "fst (executeCommand exampleHost ''tools:boom?{}'' JUndefined exampleManager) = Inr JNull"
    by code_simp+
  show ?thesis
    using warned nobody rest by (simp add: malformed logWarn_def)
qed

text \<open>The claim as the specification states it fails: the command string has one colon in
  its name portion and no active extension is named \<open>nobody\<close>, and no arguments are
  passed; the query portion is a lone percent sign, on which \<^verbatim>\<open>decodeURIComponent\<close>
  throws, and the exception leaves \<^verbatim>\<open>executeCommand\<close>.\<close>

theorem executeCommand_never_throws_counterexample:
  "length (split (commandNamePart ''nobody:cmd?%'') (CHR '':'')) = 2
   \<and> find (\<lambda>ext. name (metadata ext)
                    = resolveExtensionName (split (commandNamePart ''nobody:cmd?%'') (CHR '':'')))
          (p_activeExtensions exampleManager) = None
   \<and> fst (executeCommand exampleHost ''nobody:cmd?%'' JUndefined exampleManager)
       = Inl ''URIError: URI malformed''"
  by code_simp

end
